theory Spec2Isabelle
  imports Main "HOL-Library.AList"
begin

section \<open>Handlebars Preview Plus: the companion-module recipe loader\<close>

text \<open>
  A shallow embedding of the recipe loader (\<^verbatim>\<open>templateModuleLoader.ts\<close>), the render
  pipeline (\<^verbatim>\<open>templateRenderer.ts\<close>) and the compiler-context cache of
  \<^verbatim>\<open>tsCompiler.ts\<close>.

  JavaScript strings are modelled as \<^typ>\<open>string\<close> (lists of 8-bit code units), which
  covers every string made of Latin-1 characters. Promises are modelled by their outcome:
  an awaited call either yields a value or an error.
\<close>

subsection \<open>Node's \<^verbatim>\<open>path\<close> module (POSIX flavour)\<close>

text \<open>
  The loader calls \<^verbatim>\<open>path.isAbsolute\<close>, \<^verbatim>\<open>path.normalize\<close>,
  \<^verbatim>\<open>path.resolve\<close>, \<^verbatim>\<open>path.dirname\<close>, \<^verbatim>\<open>path.extname\<close> and
  \<^verbatim>\<open>path.relative\<close>. They belong to the Node runtime, not to the repository; the
  definitions below follow the algorithms of \<^verbatim>\<open>path.posix\<close>, working on the
  segments between separators.
\<close>

fun splitSlash :: "string \<Rightarrow> string list" where
  "splitSlash [] = [[]]"
| "splitSlash (c # cs) =
     (if c = CHR ''/'' then [] # splitSlash cs
      else (case splitSlash cs of [] \<Rightarrow> [[c]] | s # ss \<Rightarrow> (c # s) # ss))"

fun joinSlash :: "string list \<Rightarrow> string" where
  "joinSlash [] = []"
| "joinSlash [s] = s"
| "joinSlash (s # t # ss) = s @ CHR ''/'' # joinSlash (t # ss)"

text \<open>
  \<^verbatim>\<open>normalizeString(path, allowAboveRoot)\<close>: empty and \<^verbatim>\<open>.\<close> segments are
  dropped, \<^verbatim>\<open>..\<close> removes the segment before it unless there is none or it is
  itself \<^verbatim>\<open>..\<close>; in that case it is kept only when \<open>allowAboveRoot\<close> holds. The
  accumulator holds the segments kept so far, last one first.
\<close>

fun normalizeSegs :: "bool \<Rightarrow> string list \<Rightarrow> string list \<Rightarrow> string list" where
  "normalizeSegs allowAboveRoot acc [] = rev acc"
| "normalizeSegs allowAboveRoot acc (s # ss) =
     (if s = [] \<or> s = ''.'' then normalizeSegs allowAboveRoot acc ss
      else if s = ''..'' then
        (case acc of
           a # as \<Rightarrow>
             (if a \<noteq> ''..'' then normalizeSegs allowAboveRoot as ss
              else if allowAboveRoot then normalizeSegs allowAboveRoot (s # acc) ss
              else normalizeSegs allowAboveRoot acc ss)
         | [] \<Rightarrow>
             (if allowAboveRoot then normalizeSegs allowAboveRoot [s] ss
              else normalizeSegs allowAboveRoot [] ss))
      else normalizeSegs allowAboveRoot (s # acc) ss)"

definition normalizeString :: "string \<Rightarrow> bool \<Rightarrow> string" where
  "normalizeString p allowAboveRoot = joinSlash (normalizeSegs allowAboveRoot [] (splitSlash p))"

definition path_isAbsolute :: "string \<Rightarrow> bool" where
  "path_isAbsolute p = (case p of [] \<Rightarrow> False | c # _ \<Rightarrow> c = CHR ''/'')"

definition path_normalize :: "string \<Rightarrow> string" where
  "path_normalize p =
     (if p = [] then ''.''
      else
        (let isAbsolute = (hd p = CHR ''/'');
             trailingSeparator = (last p = CHR ''/'');
             body = normalizeString p (\<not> isAbsolute)
         in if body = [] then
              (if isAbsolute then ''/'' else if trailingSeparator then ''./'' else ''.'')
            else (if isAbsolute then ''/'' else []) @ body
                 @ (if trailingSeparator then ''/'' else [])))"

text \<open>
  \<^verbatim>\<open>path.resolve(...args)\<close> reads its arguments from the right, then the current
  working directory, until an absolute one is found; empty arguments are skipped.
\<close>

fun resolveLoop :: "string list \<Rightarrow> string \<Rightarrow> string \<times> bool" where
  "resolveLoop [] resolvedPath = (resolvedPath, False)"
| "resolveLoop (p # ps) resolvedPath =
     (if p = [] then resolveLoop ps resolvedPath
      else if hd p = CHR ''/'' then (p @ CHR ''/'' # resolvedPath, True)
      else resolveLoop ps (p @ CHR ''/'' # resolvedPath))"

definition path_resolve :: "string \<Rightarrow> string list \<Rightarrow> string" where
  "path_resolve cwd args =
     (case resolveLoop (rev args @ [cwd]) [] of
        (resolvedPath, resolvedAbsolute) \<Rightarrow>
          (let body = normalizeString resolvedPath (\<not> resolvedAbsolute)
           in if resolvedAbsolute then CHR ''/'' # body
              else if body \<noteq> [] then body else ''.''))"

text \<open>
  \<^verbatim>\<open>path.dirname\<close>: the characters after the first are scanned from the right;
  trailing separators are skipped and the next separator found ends the result.
\<close>

definition path_dirname :: "string \<Rightarrow> string" where
  "path_dirname p =
     (case p of
        [] \<Rightarrow> ''.''
      | c # cs \<Rightarrow>
          (let hasRoot = (c = CHR ''/'');
               upto = dropWhile (\<lambda>x. x \<noteq> CHR ''/'') (dropWhile (\<lambda>x. x = CHR ''/'') (rev cs));
               end = length upto
           in if upto = [] then (if hasRoot then ''/'' else ''.'')
              else if hasRoot \<and> end = 1 then ''//''
              else take end p))"

text \<open>
  \<^verbatim>\<open>path.extname\<close>: the part of the last segment from its last dot on; empty when
  that segment has no dot, starts with its only dot, or is \<^verbatim>\<open>..\<close>.
\<close>

definition path_basename :: "string \<Rightarrow> string" where
  "path_basename p =
     rev (takeWhile (\<lambda>x. x \<noteq> CHR ''/'') (dropWhile (\<lambda>x. x = CHR ''/'') (rev p)))"

definition path_extname :: "string \<Rightarrow> string" where
  "path_extname p =
     (let b = path_basename p;
          ext = rev (takeWhile (\<lambda>x. x \<noteq> CHR ''.'') (rev b))
      in if CHR ''.'' \<notin> set b then []
         else if length ext + 1 = length b then []
         else if b = ''..'' then []
         else CHR ''.'' # ext)"

text \<open>
  \<^verbatim>\<open>path.relative(from, to)\<close>: both are resolved, their common leading segments
  are dropped, and one \<^verbatim>\<open>..\<close> is emitted for each segment left of \<open>from\<close>.
\<close>

fun dropCommon :: "string list \<Rightarrow> string list \<Rightarrow> string list \<times> string list" where
  "dropCommon (x # xs) (y # ys) = (if x = y then dropCommon xs ys else (x # xs, y # ys))"
| "dropCommon xs ys = (xs, ys)"

definition pathSegments :: "string \<Rightarrow> string list" where
  "pathSegments p = filter (\<lambda>s. s \<noteq> []) (splitSlash p)"

definition path_relative :: "string \<Rightarrow> string \<Rightarrow> string \<Rightarrow> string" where
  "path_relative cwd from to =
     (if from = to then []
      else
        (let from' = path_resolve cwd [from]; to' = path_resolve cwd [to]
         in if from' = to' then []
            else (case dropCommon (pathSegments from') (pathSegments to') of
                    (fs, ts) \<Rightarrow> joinSlash (replicate (length fs) ''..'' @ ts))))"

subsection \<open>JavaScript values\<close>

text \<open>
  A companion module exports an arbitrary JavaScript value. Objects live in a heap and are
  referred to by address, so that an object may refer to itself; \<open>EmptyObj\<close> is the
  fresh object written \<^verbatim>\<open>{}\<close> in the loader. Numbers are restricted to integers.
  A function value is an identifier; what a call returns once awaited is given by the
  environment.
\<close>

datatype jsval =
    Undefined
  | Null
  | Bool bool
  | Num int
  | Str string
  | Fn nat
  | Obj nat
  | EmptyObj
  | Arr "jsval list"

datatype error =
    ModuleNotFound string
  | DepthExceeded
  | PartialMissingFile string
  | PartialReadFailed string string string
  | TypeError string
  | Thrown string

record ProcessingContext =
  ctx_templatePath :: string
  ctx_modulePath :: string
  ctx_workspaceFolder :: "string option"

text \<open>
  The world a module value lives in: \<open>heap\<close> gives the own enumerable properties of an
  object in the order \<^verbatim>\<open>Object.entries\<close> lists them, \<open>callFn\<close> the awaited outcome of
  calling a function with the processing context (a thrown exception or rejected promise
  is \<open>Inl\<close> with its message), \<open>callProcessor\<close> the same for a
  \<^verbatim>\<open>TemplateProcessor\<close> called with a text and the context, \<open>objectToString\<close>
  what \<^verbatim>\<open>String\<close> makes of a value that is not a primitive. Calls are taken to
  return and to be free of side effects on the heap and on the loader's state.
\<close>

record jsworld =
  heap :: "nat \<Rightarrow> (string \<times> jsval) list"
  callFn :: "nat \<Rightarrow> ProcessingContext \<Rightarrow> string + jsval"
  callProcessor :: "nat \<Rightarrow> string \<Rightarrow> ProcessingContext \<Rightarrow> string + string"
  objectToString :: "jsval \<Rightarrow> string"

definition getProp :: "jsworld \<Rightarrow> jsval \<Rightarrow> string \<Rightarrow> jsval" where
  \<comment> \<open>\<^verbatim>\<open>record[key]\<close> for the property names the loader reads\<close>
  "getProp W v key =
     (case v of
        Obj a \<Rightarrow> (case map_of (heap W a) key of None \<Rightarrow> Undefined | Some x \<Rightarrow> x)
      | _ \<Rightarrow> Undefined)"

definition isObject :: "jsval \<Rightarrow> bool" where
  \<comment> \<open>\<^verbatim>\<open>typeof v === "object" && v !== null\<close>\<close>
  "isObject v = (case v of Obj _ \<Rightarrow> True | EmptyObj \<Rightarrow> True | Arr _ \<Rightarrow> True | _ \<Rightarrow> False)"

definition isFunction :: "jsval \<Rightarrow> bool" where
  "isFunction v = (case v of Fn _ \<Rightarrow> True | _ \<Rightarrow> False)"

definition isString :: "jsval \<Rightarrow> bool" where
  "isString v = (case v of Str _ \<Rightarrow> True | _ \<Rightarrow> False)"

definition truthy :: "jsval \<Rightarrow> bool" where
  "truthy v =
     (case v of
        Undefined \<Rightarrow> False | Null \<Rightarrow> False | Bool b \<Rightarrow> b | Num n \<Rightarrow> n \<noteq> 0
      | Str s \<Rightarrow> s \<noteq> [] | _ \<Rightarrow> True)"

subsection \<open>Recipes and their merge\<close>

record TemplatePreviewRecipe =
  title :: jsval
  data :: jsval
  helpers :: jsval
  partials :: jsval
  preprocess :: jsval
  postprocess :: jsval
  watchFiles :: jsval

definition emptyRecipe :: TemplatePreviewRecipe where
  "emptyRecipe = \<lparr>title = Undefined, data = Undefined, helpers = Undefined,
     partials = Undefined, preprocess = Undefined, postprocess = Undefined,
     watchFiles = Undefined\<rparr>"

definition overrideField :: "jsval \<Rightarrow> jsval \<Rightarrow> jsval" where
  \<comment> \<open>one round of the loop over \<open>keys\<close> in \<^verbatim>\<open>mergeRecipes\<close>\<close>
  "overrideField current v = (if v \<noteq> Undefined \<and> v \<noteq> Null then v else current)"

definition mergeRecipes ::
  "TemplatePreviewRecipe option \<Rightarrow> TemplatePreviewRecipe option \<Rightarrow> TemplatePreviewRecipe option"
where
  "mergeRecipes base override =
     (case override of
        None \<Rightarrow> base
      | Some ov \<Rightarrow>
          (let result = (case base of None \<Rightarrow> emptyRecipe | Some b \<Rightarrow> b)
           in Some \<lparr>title = overrideField (title result) (title ov),
                    data = overrideField (data result) (data ov),
                    helpers = overrideField (helpers result) (helpers ov),
                    partials = overrideField (partials result) (partials ov),
                    preprocess = overrideField (preprocess result) (preprocess ov),
                    postprocess = overrideField (postprocess result) (postprocess ov),
                    watchFiles = overrideField (watchFiles result) (watchFiles ov)\<rparr>))"

definition inlineRecipe :: "jsworld \<Rightarrow> jsval \<Rightarrow> TemplatePreviewRecipe" where
  "inlineRecipe W record =
     \<lparr>title = (if isString (getProp W record ''title'') then getProp W record ''title''
               else Undefined),
      data = getProp W record ''data'',
      helpers = getProp W record ''helpers'',
      partials = getProp W record ''partials'',
      preprocess = (if isFunction (getProp W record ''preprocess'')
                    then getProp W record ''preprocess'' else Undefined),
      postprocess = (if isFunction (getProp W record ''postprocess'')
                     then getProp W record ''postprocess'' else Undefined),
      watchFiles = getProp W record ''watchFiles''\<rparr>"

subsection \<open>Resolving the exported shape\<close>

definition MAX_RESOLUTION_DEPTH :: nat where
  "MAX_RESOLUTION_DEPTH = 10"

definition nestedKeys :: "string list" where
  "nestedKeys = [''getPreviewRecipe'', ''getPreviewConfig'', ''getPreviewData'', ''default'']"

text \<open>
  \<open>resolveRecipe\<close> with its loop over \<open>nestedKeys\<close>: \<open>resolveNested\<close> is the loop, taking
  the keys still to visit, the depth of the nested calls and the value of \<open>resolved\<close>.
  An error of a nested call leaves the loop, as the exception does.
\<close>

function
  resolveRecipe ::
    "jsworld \<Rightarrow> ProcessingContext \<Rightarrow> jsval \<Rightarrow> nat \<Rightarrow> error + TemplatePreviewRecipe option"
and
  resolveNested ::
    "jsworld \<Rightarrow> ProcessingContext \<Rightarrow> jsval \<Rightarrow> string list \<Rightarrow> nat
       \<Rightarrow> TemplatePreviewRecipe option \<Rightarrow> error + TemplatePreviewRecipe option"
where
  "resolveRecipe W context candidate depth =
     (if depth > MAX_RESOLUTION_DEPTH then Inl DepthExceeded
      else
        (case candidate of
           Fn f \<Rightarrow>
             (case callFn W f context of
                Inl message \<Rightarrow> Inl (Thrown message)
              | Inr result \<Rightarrow> resolveRecipe W context result (depth + 1))
         | _ \<Rightarrow>
             (if \<not> truthy candidate \<or> \<not> isObject candidate then Inr None
              else
                (case resolveNested W context candidate nestedKeys (depth + 1) None of
                   Inl e \<Rightarrow> Inl e
                 | Inr resolved \<Rightarrow>
                     Inr (mergeRecipes resolved (Some (inlineRecipe W candidate)))))))"
| "resolveNested W context record [] depth resolved = Inr resolved"
| "resolveNested W context record (key # keys) depth resolved =
     (if getProp W record key = Undefined
      then resolveNested W context record keys depth resolved
      else
        (case resolveRecipe W context (getProp W record key) depth of
           Inl e \<Rightarrow> Inl e
         | Inr nested \<Rightarrow>
             resolveNested W context record keys depth (mergeRecipes resolved nested)))"
  by pat_completeness auto
termination
  by (relation "measure (\<lambda>x. case x of
          Inl (W, context, candidate, depth) \<Rightarrow> (12 - depth) * 6
        | Inr (W, context, record, keys, depth, resolved) \<Rightarrow> (12 - depth) * 6 + length keys + 1)")
     (auto simp: nestedKeys_def MAX_RESOLUTION_DEPTH_def)

text \<open>
  The invocations of \<open>resolveRecipe\<close> that a resolution makes:
  \<open>reaches W context candidate depth n\<close> holds when resolving \<open>candidate\<close> at \<open>depth\<close>
  leads to an invocation at depth \<open>n\<close>. A function's result is resolved one level down;
  the value under a nested key is resolved one level down once the keys before it have
  been resolved without an error.
\<close>

inductive reaches :: "jsworld \<Rightarrow> ProcessingContext \<Rightarrow> jsval \<Rightarrow> nat \<Rightarrow> nat \<Rightarrow> bool"
  for W :: jsworld and ctx :: ProcessingContext
where
  reaches_here: "reaches W ctx candidate depth depth"
| reaches_call:
    "depth \<le> MAX_RESOLUTION_DEPTH \<Longrightarrow> callFn W f ctx = Inr result \<Longrightarrow>
     reaches W ctx result (depth + 1) n \<Longrightarrow> reaches W ctx (Fn f) depth n"
| reaches_key:
    "depth \<le> MAX_RESOLUTION_DEPTH \<Longrightarrow> \<not> isFunction candidate \<Longrightarrow> truthy candidate \<Longrightarrow>
     isObject candidate \<Longrightarrow> nestedKeys = before @ key # after \<Longrightarrow>
     getProp W candidate key \<noteq> Undefined \<Longrightarrow>
     resolveNested W ctx candidate before (depth + 1) None = Inr resolved \<Longrightarrow>
     reaches W ctx (getProp W candidate key) (depth + 1) n \<Longrightarrow>
     reaches W ctx candidate depth n"

definition fieldOf ::
  "(TemplatePreviewRecipe \<Rightarrow> jsval) \<Rightarrow> TemplatePreviewRecipe option \<Rightarrow> jsval" where
  \<comment> \<open>\<^verbatim>\<open>recipe?.field\<close>\<close>
  "fieldOf field r = (case r of None \<Rightarrow> Undefined | Some x \<Rightarrow> field x)"

definition nestedResult ::
  "jsworld \<Rightarrow> ProcessingContext \<Rightarrow> jsval \<Rightarrow> string \<Rightarrow> nat \<Rightarrow> error + TemplatePreviewRecipe option"
where
  \<comment> \<open>what one round of the loop over \<open>nestedKeys\<close> merges into \<open>resolved\<close>\<close>
  "nestedResult W context record key depth =
     (if getProp W record key = Undefined then Inr None
      else resolveRecipe W context (getProp W record key) depth)"

subsection \<open>Resolving one recipe field\<close>

definition resolveMaybeFactory ::
  "jsworld \<Rightarrow> jsval \<Rightarrow> ProcessingContext \<Rightarrow> jsval \<Rightarrow> error + jsval" where
  "resolveMaybeFactory W v context fallback =
     (case v of
        Fn f \<Rightarrow>
          (case callFn W f context of
             Inl message \<Rightarrow> Inl (Thrown message)
           | Inr result \<Rightarrow> Inr (if result = Undefined then fallback else result))
      | _ \<Rightarrow> (if v = Undefined \<or> v = Null then Inr fallback else Inr v))"

subsection \<open>Conversions of values\<close>

function natToString :: "nat \<Rightarrow> string" where
  "natToString n =
     (if n < 10 then [char_of (48 + n)]
      else natToString (n div 10) @ [char_of (48 + n mod 10)])"
  by pat_completeness auto
termination
  by (relation "measure id") auto

definition js_String :: "jsworld \<Rightarrow> jsval \<Rightarrow> string" where
  \<comment> \<open>\<^verbatim>\<open>String(v)\<close>\<close>
  "js_String W v =
     (case v of
        Undefined \<Rightarrow> ''undefined''
      | Null \<Rightarrow> ''null''
      | Bool b \<Rightarrow> (if b then ''true'' else ''false'')
      | Num n \<Rightarrow> (if n < 0 then CHR ''-'' # natToString (nat (- n)) else natToString (nat n))
      | Str s \<Rightarrow> s
      | _ \<Rightarrow> objectToString W v)"

fun indexed :: "nat \<Rightarrow> jsval list \<Rightarrow> (string \<times> jsval) list" where
  "indexed i [] = []"
| "indexed i (v # vs) = (natToString i, v) # indexed (i + 1) vs"

definition objectEntries :: "jsworld \<Rightarrow> jsval \<Rightarrow> (string \<times> jsval) list" where
  \<comment> \<open>\<^verbatim>\<open>Object.entries(v ?? {})\<close>\<close>
  "objectEntries W v =
     (case v of
        Obj a \<Rightarrow> heap W a
      | Arr xs \<Rightarrow> indexed 0 xs
      | Str s \<Rightarrow> indexed 0 (map (\<lambda>c. Str [c]) s)
      | _ \<Rightarrow> [])"

definition spread :: "jsval \<Rightarrow> error + jsval list" where
  \<comment> \<open>\<^verbatim>\<open>[...v]\<close>: arrays and strings are iterable, the other values of the model are not\<close>
  "spread v =
     (case v of
        Arr xs \<Rightarrow> Inr xs
      | Str s \<Rightarrow> Inr (map (\<lambda>c. Str [c]) s)
      | _ \<Rightarrow> Inl (TypeError ''value is not iterable''))"

definition isWhiteSpace :: "char \<Rightarrow> bool" where
  \<comment> \<open>the white space and line terminators that \<^verbatim>\<open>trim\<close> removes, among 8-bit code units\<close>
  "isWhiteSpace c = (of_char c \<in> {9, 10, 11, 12, 13, 32, 160 :: nat})"

definition isBlank :: "string \<Rightarrow> bool" where
  \<comment> \<open>\<^verbatim>\<open>entry.trim().length > 0\<close> fails\<close>
  "isBlank s = list_all isWhiteSpace s"

definition toLowerCase :: "string \<Rightarrow> string" where
  \<comment> \<open>on the letters A to Z, which is all that a comparison with \<^verbatim>\<open>.ts\<close> can see\<close>
  "toLowerCase s =
     map (\<lambda>c. if (65 :: nat) \<le> of_char c \<and> of_char c \<le> (90 :: nat)
              then char_of (of_char c + (32 :: nat)) else c) s"

subsection \<open>The host: file system, transpiler and module execution\<close>

text \<open>
  What the loader asks of its surroundings. \<open>cwd\<close> is the working directory that
  \<^verbatim>\<open>path.resolve\<close> falls back to, \<open>fileExists\<close> is \<^verbatim>\<open>fs.access\<close>, \<open>readFile\<close>
  is \<^verbatim>\<open>fs.readFile(path, encoding)\<close>, \<open>transpile\<close> is
  \<^verbatim>\<open>transpileTypeScriptModule(source, filePath, workspaceFolder)\<close>. \<open>compileAndRun\<close>
  stands for compiling and running a source text as the module at a path, \<open>requireModule\<close>
  for \<^verbatim>\<open>require\<close> of a path; both are given the per-path source overrides, and
  yield the thrown message or the exports together with the paths that the installed hooks
  passed to \<open>recordModuleDependency\<close> meanwhile, in that order.
\<close>

record host =
  cwd :: string
  fileExists :: "string \<Rightarrow> bool"
  readFile :: "string \<Rightarrow> jsval \<Rightarrow> string + string"
  transpile :: "string \<Rightarrow> string \<Rightarrow> string option \<Rightarrow> string + string"
  compileAndRun ::
    "string \<Rightarrow> string \<Rightarrow> (string \<times> string) list option \<Rightarrow> string + jsval \<times> string list"
  requireModule ::
    "string \<Rightarrow> (string \<times> string) list option \<Rightarrow> string + jsval \<times> string list"

subsection \<open>The dependency tracker\<close>

text \<open>
  The state of the tracker that outlives a load is \<open>moduleDependencyMap\<close>, from the
  normalized path of a root module to the set of its recorded dependencies, kept in
  insertion order. Both callers in \<open>loadModuleExports\<close> open a root frame. The frames
  that the installed \<^verbatim>\<open>require\<close> hooks open below it share its context, so what they
  record arrives in the root's set; the hooks, the stack of frames and the \<^verbatim>\<open>require\<close>
  cache belong to the host, which reports the recorded paths with the exports.
\<close>

type_synonym moduleDependencyMap = "(string \<times> string list) list"

fun dedupe :: "'a list \<Rightarrow> 'a list \<Rightarrow> 'a list" where
  \<comment> \<open>the members of a \<^verbatim>\<open>Set\<close> filled from a list, in insertion order\<close>
  "dedupe seen [] = []"
| "dedupe seen (x # xs) = (if x \<in> set seen then dedupe seen xs else x # dedupe (x # seen) xs)"

definition recordModuleDependencies :: "string list \<Rightarrow> string list" where
  \<comment> \<open>the set \<open>dependencies\<close> after \<open>recordModuleDependency\<close> was called on each path\<close>
  "recordModuleDependencies recorded = dedupe [] (map path_normalize recorded)"

definition withModuleLoadFrame ::
  "moduleDependencyMap \<Rightarrow> string \<Rightarrow> (string + jsval \<times> string list)
     \<Rightarrow> (error + jsval) \<times> moduleDependencyMap" where
  \<comment> \<open>a root frame around a loader with the given outcome\<close>
  "withModuleLoadFrame deps modulePath outcome =
     (case outcome of
        Inl message \<Rightarrow> (Inl (Thrown message), AList.delete (path_normalize modulePath) deps)
      | Inr (exports, recorded) \<Rightarrow>
          (Inr exports,
           AList.update (path_normalize modulePath) (recordModuleDependencies recorded) deps))"

definition invalidateModuleTree :: "moduleDependencyMap \<Rightarrow> string \<Rightarrow> moduleDependencyMap" where
  "invalidateModuleTree deps modulePath = AList.delete (path_normalize modulePath) deps"

definition getModuleDependenciesFor :: "moduleDependencyMap \<Rightarrow> string \<Rightarrow> string list" where
  "getModuleDependenciesFor deps modulePath =
     (case map_of deps (path_normalize modulePath) of None \<Rightarrow> [] | Some ds \<Rightarrow> ds)"

subsection \<open>Loading the exports\<close>

record TemplateRecipeLoadOptions =
  moduleSource :: "string option"
  moduleSourceOverrides :: "(string \<times> string) list option"
  partialSourceOverrides :: "(string \<times> string) list option"
  optWorkspaceFolder :: "string option"

definition loadModuleFromSource ::
  "host \<Rightarrow> moduleDependencyMap \<Rightarrow> string \<Rightarrow> string \<Rightarrow> (string \<times> string) list option
     \<Rightarrow> (error + jsval) \<times> moduleDependencyMap" where
  "loadModuleFromSource H deps modulePath source overrides =
     withModuleLoadFrame deps modulePath (compileAndRun H modulePath source overrides)"

definition loadModuleExports ::
  "host \<Rightarrow> moduleDependencyMap \<Rightarrow> string \<Rightarrow> string option \<Rightarrow> string option
     \<Rightarrow> (string \<times> string) list option \<Rightarrow> (error + jsval) \<times> moduleDependencyMap" where
  "loadModuleExports H deps modulePath moduleSourceOverride workspace overrides =
     (let deps1 = invalidateModuleTree deps modulePath;
          extension = toLowerCase (path_extname modulePath)
      in if extension = ''.ts'' then
           (case (case moduleSourceOverride of
                    Some source \<Rightarrow> Inr source
                  | None \<Rightarrow> readFile H modulePath (Str ''utf8'')) of
              Inl message \<Rightarrow> (Inl (Thrown message), deps1)
            | Inr source \<Rightarrow>
                (case transpile H source modulePath workspace of
                   Inl message \<Rightarrow> (Inl (Thrown message), deps1)
                 | Inr transpiled \<Rightarrow>
                     loadModuleFromSource H deps1 modulePath transpiled overrides))
         else
           (case moduleSourceOverride of
              Some source \<Rightarrow> loadModuleFromSource H deps1 modulePath source overrides
            | None \<Rightarrow> withModuleLoadFrame deps1 modulePath (requireModule H modulePath overrides)))"

subsection \<open>Partials\<close>

definition isPartialFileReference :: "jsworld \<Rightarrow> jsval \<Rightarrow> bool" where
  \<comment> \<open>\<^verbatim>\<open>typeof value === "object" && value !== null && "file" in value\<close>\<close>
  "isPartialFileReference W v =
     (case v of Obj a \<Rightarrow> ''file'' \<in> fst ` set (heap W a) | _ \<Rightarrow> False)"

definition resolveRelativeToModule :: "host \<Rightarrow> string \<Rightarrow> string \<Rightarrow> string" where
  "resolveRelativeToModule H modulePath target =
     (if path_isAbsolute target then target
      else path_resolve (cwd H) [path_dirname modulePath, target])"

fun findNormalized :: "(string \<times> string) list \<Rightarrow> string \<Rightarrow> string option" where
  \<comment> \<open>the loop over \<^verbatim>\<open>Object.entries(overrides)\<close>\<close>
  "findNormalized [] normalizedPath = None"
| "findNormalized ((key, v) # rest) normalizedPath =
     (if path_normalize key = normalizedPath then Some v else findNormalized rest normalizedPath)"

definition findOverride :: "(string \<times> string) list option \<Rightarrow> string \<Rightarrow> string option" where
  "findOverride overrides normalizedPath =
     (case overrides of
        None \<Rightarrow> None
      | Some ovs \<Rightarrow>
          (case map_of ovs normalizedPath of
             Some v \<Rightarrow> Some v
           | None \<Rightarrow> findNormalized ovs normalizedPath))"

text \<open>
  The loop of \<open>resolvePartials\<close> over the entries, threading \<open>contents\<close> and \<open>files\<close>.
  \<^verbatim>\<open>path.isAbsolute\<close> rejects a \<^verbatim>\<open>file\<close> that is not a string with a type error.
\<close>

fun resolvePartialEntries ::
  "host \<Rightarrow> jsworld \<Rightarrow> string \<Rightarrow> (string \<times> string) list option \<Rightarrow> (string \<times> jsval) list
     \<Rightarrow> (string \<times> string) list \<Rightarrow> (string \<times> string) list
     \<Rightarrow> error + (string \<times> string) list \<times> (string \<times> string) list" where
  "resolvePartialEntries H W modulePath overrides [] contents files = Inr (contents, files)"
| "resolvePartialEntries H W modulePath overrides ((name, definition) # entries) contents files =
     (if definition = Undefined \<or> definition = Null
      then resolvePartialEntries H W modulePath overrides entries contents files
      else if isPartialFileReference W definition then
        (if \<not> truthy (getProp W definition ''file'') then Inl (PartialMissingFile name)
         else
           (case getProp W definition ''file'' of
              Str file \<Rightarrow>
                (let absolutePath = resolveRelativeToModule H modulePath file;
                     normalizedPath = path_normalize absolutePath;
                     encoding = (if getProp W definition ''encoding'' = Undefined
                                    \<or> getProp W definition ''encoding'' = Null
                                 then Str ''utf8'' else getProp W definition ''encoding'')
                 in case (case findOverride overrides normalizedPath of
                            Some override \<Rightarrow> Inr override
                          | None \<Rightarrow>
                              (case readFile H normalizedPath encoding of
                                 Inl message \<Rightarrow> Inl (PartialReadFailed name normalizedPath message)
                               | Inr content \<Rightarrow> Inr content)) of
                      Inl e \<Rightarrow> Inl e
                    | Inr content \<Rightarrow>
                        resolvePartialEntries H W modulePath overrides entries
                          (AList.update name content contents)
                          (AList.update name normalizedPath files))
            | _ \<Rightarrow> Inl (TypeError ''The path argument must be of type string'')))
      else resolvePartialEntries H W modulePath overrides entries
             (AList.update name (js_String W definition) contents) files)"

definition resolvePartials ::
  "host \<Rightarrow> jsworld \<Rightarrow> jsval \<Rightarrow> string \<Rightarrow> (string \<times> string) list option
     \<Rightarrow> error + (string \<times> string) list \<times> (string \<times> string) list" where
  "resolvePartials H W partialDefs modulePath overrides =
     resolvePartialEntries H W modulePath overrides (objectEntries W partialDefs) [] []"

definition partialPath :: "host \<Rightarrow> string \<Rightarrow> string \<Rightarrow> string" where
  \<comment> \<open>\<open>normalizedPath\<close> in \<open>resolvePartials\<close>: the resolved path of a file reference\<close>
  "partialPath H modulePath file = path_normalize (resolveRelativeToModule H modulePath file)"

subsection \<open>\<open>loadTemplateRecipe\<close>\<close>

record ResolvedTemplatePreviewRecipe =
  r_title :: jsval
  r_data :: jsval
  r_helpers :: jsval
  r_partials :: "(string \<times> string) list"
  r_preprocess :: jsval
  r_postprocess :: jsval
  r_watchFiles :: "string list"
  r_partialFiles :: "(string \<times> string) list"
  r_moduleDependencies :: "string list"

definition watchString :: "jsval \<Rightarrow> string option" where
  \<comment> \<open>the filter \<^verbatim>\<open>typeof entry === "string" && entry.trim().length > 0\<close>\<close>
  "watchString entry = (case entry of Str s \<Rightarrow> (if isBlank s then None else Some s) | _ \<Rightarrow> None)"

definition resolveWatchEntry :: "host \<Rightarrow> string \<Rightarrow> string \<Rightarrow> string" where
  "resolveWatchEntry H modulePath entry =
     (if path_isAbsolute entry then entry
      else path_resolve (cwd H) [path_dirname modulePath, entry])"

text \<open>
  A \<^verbatim>\<open>Set\<close> compares strings by value and objects by identity. \<open>dedupe\<close> compares
  values of the embedding, which is the same on strings and on heap objects; the entries
  it could treat differently are arrays, which the filter removes in any case.
\<close>

definition normalizeWatchFiles :: "host \<Rightarrow> string \<Rightarrow> jsval list \<Rightarrow> string list" where
  \<comment> \<open>\<^verbatim>\<open>Array.from(new Set(watchEntries)).filter(...).map(...)\<close>\<close>
  "normalizeWatchFiles H modulePath watchEntries =
     map (resolveWatchEntry H modulePath) (List.map_filter watchString (dedupe [] watchEntries))"

text \<open>
  The part of \<open>loadTemplateRecipe\<close> that follows \<open>loadModuleExports\<close>: \<open>raw\<close> is the
  exported value and \<open>deps\<close> the dependency map as the load left it.
\<close>

definition completeRecipe ::
  "host \<Rightarrow> jsworld \<Rightarrow> moduleDependencyMap \<Rightarrow> string \<Rightarrow> ProcessingContext
     \<Rightarrow> TemplateRecipeLoadOptions \<Rightarrow> jsval \<Rightarrow> error + ResolvedTemplatePreviewRecipe" where
  "completeRecipe H W deps modulePath context options raw =
     (case resolveRecipe W context raw 0 of
        Inl e \<Rightarrow> Inl e
      | Inr recipe \<Rightarrow>
     (case resolveMaybeFactory W (fieldOf helpers recipe) context EmptyObj of
        Inl e \<Rightarrow> Inl e
      | Inr resolvedHelpers \<Rightarrow>
     (case resolveMaybeFactory W (fieldOf partials recipe) context EmptyObj of
        Inl e \<Rightarrow> Inl e
      | Inr resolvedPartials \<Rightarrow>
     (case resolveMaybeFactory W (fieldOf data recipe) context EmptyObj of
        Inl e \<Rightarrow> Inl e
      | Inr resolvedData \<Rightarrow>
     (case resolveMaybeFactory W (fieldOf watchFiles recipe) context (Arr []) of
        Inl e \<Rightarrow> Inl e
      | Inr resolvedWatchFiles \<Rightarrow>
     (case resolvePartials H W resolvedPartials modulePath (partialSourceOverrides options) of
        Inl e \<Rightarrow> Inl e
      | Inr (contents, files) \<Rightarrow>
     (case spread resolvedWatchFiles of
        Inl e \<Rightarrow> Inl e
      | Inr watchList \<Rightarrow>
          (let moduleDependencies = getModuleDependenciesFor deps modulePath;
               watchEntries = watchList @ map Str (map snd files) @ map Str moduleDependencies
           in Inr \<lparr>r_title = fieldOf title recipe,
                    r_data = resolvedData,
                    r_helpers = resolvedHelpers,
                    r_partials = contents,
                    r_preprocess = fieldOf preprocess recipe,
                    r_postprocess = fieldOf postprocess recipe,
                    r_watchFiles = normalizeWatchFiles H modulePath watchEntries,
                    r_partialFiles = files,
                    r_moduleDependencies = moduleDependencies\<rparr>))))))))"

definition loadTemplateRecipe ::
  "host \<Rightarrow> jsworld \<Rightarrow> moduleDependencyMap \<Rightarrow> string \<Rightarrow> ProcessingContext
     \<Rightarrow> TemplateRecipeLoadOptions
     \<Rightarrow> (error + ResolvedTemplatePreviewRecipe) \<times> moduleDependencyMap" where
  "loadTemplateRecipe H W deps modulePath context options =
     (let moduleSourceOverride = moduleSource options;
          exists = (if moduleSourceOverride \<noteq> None then True else fileExists H modulePath)
      in if \<not> exists then (Inl (ModuleNotFound modulePath), deps)
         else
           (case loadModuleExports H deps modulePath moduleSourceOverride
                   (case optWorkspaceFolder options of
                      Some w \<Rightarrow> Some w
                    | None \<Rightarrow> ctx_workspaceFolder context)
                   (moduleSourceOverrides options) of
              (Inl e, deps1) \<Rightarrow> (Inl e, deps1)
            | (Inr raw, deps1) \<Rightarrow>
                (completeRecipe H W deps1 modulePath context options raw, deps1)))"

text \<open>
  \<open>createDefaultRecipe\<close> of the preview manager, which \<open>render\<close> uses in place of
  \<open>loadTemplateRecipe\<close> when no companion module was selected. The object it builds has no
  \<^verbatim>\<open>moduleDependencies\<close> property.
\<close>

definition createDefaultRecipe :: ResolvedTemplatePreviewRecipe where
  "createDefaultRecipe =
     \<lparr>r_title = Undefined, r_data = EmptyObj, r_helpers = EmptyObj, r_partials = [],
      r_preprocess = Undefined, r_postprocess = Undefined, r_watchFiles = [],
      r_partialFiles = [], r_moduleDependencies = []\<rparr>"

text \<open>
  The rule of the specification for one recipe field, to compare \<open>resolveMaybeFactory\<close>
  with: a callable is invoked with the context and its awaited result used, the fallback
  standing in when it returns nothing; an absent or \<^verbatim>\<open>null\<close> value gives the fallback;
  any other value is used as it is.
\<close>

definition resolvesTo ::
  "jsworld \<Rightarrow> ProcessingContext \<Rightarrow> jsval \<Rightarrow> jsval \<Rightarrow> jsval \<Rightarrow> bool" where
  "resolvesTo W context v fallback result =
     (case v of
        Fn f \<Rightarrow>
          (case callFn W f context of
             Inl message \<Rightarrow> False
           | Inr returned \<Rightarrow> result = (if returned = Undefined then fallback else returned))
      | Undefined \<Rightarrow> result = fallback
      | Null \<Rightarrow> result = fallback
      | _ \<Rightarrow> result = v)"

subsection \<open>The recipe of a render\<close>

text \<open>
  \<open>resolveCompanionModule\<close> of the preview manager and the choice that \<open>render\<close> makes
  with its result: the candidates are the normalized paths of the template with
  \<^verbatim>\<open>.js\<close> and \<^verbatim>\<open>.ts\<close> appended, \<open>overrides\<close> the texts of the unsaved documents.
\<close>

fun resolveCompanionModule ::
  "host \<Rightarrow> string list \<Rightarrow> (string \<times> string) list \<Rightarrow> (string \<times> string option) option" where
  "resolveCompanionModule H [] overrides = None"
| "resolveCompanionModule H (candidate # rest) overrides =
     (let normalized = path_normalize candidate
      in case map_of overrides normalized of
           Some override \<Rightarrow> Some (normalized, Some override)
         | None \<Rightarrow>
             (if fileExists H normalized then Some (normalized, None)
              else resolveCompanionModule H rest overrides))"

definition renderRecipe ::
  "host \<Rightarrow> jsworld \<Rightarrow> moduleDependencyMap \<Rightarrow> string list \<Rightarrow> (string \<times> string) list
     \<Rightarrow> ProcessingContext \<Rightarrow> (error + ResolvedTemplatePreviewRecipe) \<times> moduleDependencyMap" where
  "renderRecipe H W deps moduleCandidates dirtyOverrides context =
     (case resolveCompanionModule H moduleCandidates dirtyOverrides of
        Some (p, source) \<Rightarrow>
          loadTemplateRecipe H W deps p context
            \<lparr>moduleSource = source, moduleSourceOverrides = None,
             partialSourceOverrides = Some dirtyOverrides,
             optWorkspaceFolder = ctx_workspaceFolder context\<rparr>
      | None \<Rightarrow> (Inr createDefaultRecipe, deps))"

subsection \<open>The render pipeline\<close>

text \<open>
  The templating engine is a third-party library. It is a parameter here: given the
  registered helpers and partials, a template text and the data, it yields the rendered
  text or the message of the exception it throws. Processors are taken to return strings.
\<close>

type_synonym engine =
  "(string \<times> jsval) list \<Rightarrow> (string \<times> string) list \<Rightarrow> string \<Rightarrow> jsval \<Rightarrow> string + string"

definition applyProcessor ::
  "jsworld \<Rightarrow> jsval \<Rightarrow> string \<Rightarrow> ProcessingContext \<Rightarrow> error + string" where
  \<comment> \<open>\<^verbatim>\<open>await processor(text, context)\<close>\<close>
  "applyProcessor W processor text context =
     (case processor of
        Fn f \<Rightarrow>
          (case callProcessor W f text context of
             Inl message \<Rightarrow> Inl (Thrown message)
           | Inr out \<Rightarrow> Inr out)
      | _ \<Rightarrow> Inl (TypeError ''processor is not a function''))"

definition renderTemplate ::
  "engine \<Rightarrow> jsworld \<Rightarrow> string \<Rightarrow> ResolvedTemplatePreviewRecipe \<Rightarrow> ProcessingContext
     \<Rightarrow> error + string" where
  "renderTemplate engine W templateContent recipe context =
     (let registeredHelpers =
            (if truthy (r_helpers recipe) then objectEntries W (r_helpers recipe) else []);
          registeredPartials = r_partials recipe
      in case (if truthy (r_preprocess recipe)
               then applyProcessor W (r_preprocess recipe) templateContent context
               else Inr templateContent) of
           Inl e \<Rightarrow> Inl e
         | Inr processedTemplate \<Rightarrow>
             (case engine registeredHelpers registeredPartials processedTemplate
                     (if r_data recipe = Undefined \<or> r_data recipe = Null then EmptyObj
                      else r_data recipe) of
                Inl message \<Rightarrow> Inl (Thrown message)
              | Inr output \<Rightarrow>
                  (if truthy (r_postprocess recipe)
                   then applyProcessor W (r_postprocess recipe) output context
                   else Inr output)))"

text \<open>
  A fragment of the Handlebars engine, to see what the engine makes of a prefix: templates of
  text and short comments \<^verbatim>\<open>{{! ... }}\<close>, rendered with the default options, as the
  lexer and the whitespace control of the \<^verbatim>\<open>handlebars\<close> package do. Text runs up to
  the next \<^verbatim>\<open>{{\<close>; a comment ends at the first \<^verbatim>\<open>}}\<close>. A comment renders to
  nothing. When it stands alone on its line (only white space between it and the line
  breaks around it, or the ends of the template), the white space before it on the line and
  the line break after it are removed as well. Everything else is outside the fragment:
  another tag, a long comment \<^verbatim>\<open>{{!-- ... --}}\<close>, a comment closing with
  \<^verbatim>\<open>~}}\<close>, a backslash or a NUL character in the text, a tag that is not closed.
\<close>

datatype statement = ContentStatement string | CommentStatement

definition contentOf :: "string \<Rightarrow> statement list" where
  \<comment> \<open>the lexer emits no token for an empty text\<close>
  "contentOf acc = (if acc = [] then [] else [ContentStatement (rev acc)])"

definition outsideFragment :: "char \<Rightarrow> bool" where
  "outsideFragment c = (c = CHR 0x5C \<or> c = CHR 0x00)"

fun lexContent :: "string \<Rightarrow> string \<Rightarrow> statement list option"
and lexComment :: "string \<Rightarrow> string \<Rightarrow> statement list option" where
  "lexContent acc [] = Some (contentOf acc)"
| "lexContent acc [c] = (if outsideFragment c then None else Some (contentOf (c # acc)))"
| "lexContent acc [c, d] =
     (if outsideFragment c \<or> outsideFragment d \<or> (c = CHR ''{'' \<and> d = CHR ''{'') then None
      else Some (contentOf (d # c # acc)))"
| "lexContent acc (c # d # e # rest) =
     (if outsideFragment c then None
      else if c = CHR ''{'' \<and> d = CHR ''{'' then
        (if e = CHR ''!'' \<and> take 2 rest \<noteq> ''--''
         then map_option (\<lambda>body. contentOf acc @ body) (lexComment [] rest)
         else None)
      else lexContent (c # acc) (d # e # rest))"
| "lexComment acc (c # d # rest) =
     (if c = CHR ''}'' \<and> d = CHR ''}'' then
        (if take 1 acc = ''~'' then None
         else map_option (\<lambda>body. CommentStatement # body) (lexContent [] rest))
      else lexComment (c # acc) (d # rest))"
| "lexComment acc [c] = None"
| "lexComment acc [] = None"

definition endsWithBlankLine :: "string \<Rightarrow> bool" where
  \<comment> \<open>the test \<^verbatim>\<open>/\r?\n\s*?$/\<close>\<close>
  "endsWithBlankLine c =
     (CHR ''\<newline>'' \<in> set c
      \<and> list_all isWhiteSpace (takeWhile (\<lambda>x. x \<noteq> CHR ''\<newline>'') (rev c)))"

definition startsWithBlankLine :: "string \<Rightarrow> bool" where
  \<comment> \<open>the test \<^verbatim>\<open>/^\s*?\r?\n/\<close>\<close>
  "startsWithBlankLine c =
     (CHR ''\<newline>'' \<in> set c \<and> list_all isWhiteSpace (takeWhile (\<lambda>x. x \<noteq> CHR ''\<newline>'') c))"

definition isPrevWhitespace :: "statement list \<Rightarrow> nat \<Rightarrow> bool" where
  \<comment> \<open>for the root program\<close>
  "isPrevWhitespace body i =
     (if i = 0 then True
      else (case body ! (i - 1) of
              ContentStatement c \<Rightarrow>
                (if 2 \<le> i then endsWithBlankLine c
                 else endsWithBlankLine c \<or> list_all isWhiteSpace c)
            | CommentStatement \<Rightarrow> False))"

definition isNextWhitespace :: "statement list \<Rightarrow> nat \<Rightarrow> bool" where
  "isNextWhitespace body i =
     (if length body \<le> i + 1 then True
      else (case body ! (i + 1) of
              ContentStatement c \<Rightarrow>
                (if i + 2 < length body then startsWithBlankLine c
                 else startsWithBlankLine c \<or> list_all isWhiteSpace c)
            | CommentStatement \<Rightarrow> False))"

definition inlineStandalone :: "statement list \<Rightarrow> nat \<Rightarrow> bool" where
  "inlineStandalone body i =
     (i < length body \<and> body ! i = CommentStatement
      \<and> isPrevWhitespace body i \<and> isNextWhitespace body i)"

definition omitRight :: "string \<Rightarrow> string" where
  \<comment> \<open>\<^verbatim>\<open>value.replace(/^[ \t]*\r?\n?/, '')\<close>\<close>
  "omitRight c =
     (let c1 = dropWhile (\<lambda>x. x = CHR '' '' \<or> x = CHR 0x09) c;
          c2 = (case c1 of x # r \<Rightarrow> (if x = CHR 0x0D then r else c1) | [] \<Rightarrow> c1)
      in case c2 of x # r \<Rightarrow> (if x = CHR ''\<newline>'' then r else c2) | [] \<Rightarrow> c2)"

definition omitLeft :: "string \<Rightarrow> string" where
  \<comment> \<open>\<^verbatim>\<open>value.replace(/[ \t]+$/, '')\<close>\<close>
  "omitLeft c = rev (dropWhile (\<lambda>x. x = CHR '' '' \<or> x = CHR 0x09) (rev c))"

definition renderStatement :: "statement list \<Rightarrow> nat \<Rightarrow> string" where
  "renderStatement body i =
     (case body ! i of
        CommentStatement \<Rightarrow> []
      | ContentStatement c \<Rightarrow>
          (let c1 = (if 0 < i \<and> inlineStandalone body (i - 1) then omitRight c else c)
           in if inlineStandalone body (i + 1) then omitLeft c1 else c1))"

definition handlebarsComments :: engine where
  "handlebarsComments registeredHelpers registeredPartials template d =
     (case lexContent [] template of
        None \<Rightarrow> Inl ''outside the fragment''
      | Some body \<Rightarrow> Inr (concat (map (renderStatement body) [0 ..< length body])))"

subsection \<open>The compiler context of \<^verbatim>\<open>tsCompiler.ts\<close>\<close>

datatype ModuleKind = CommonJS | OtherModuleKind nat

record CompilerOptions =
  co_module :: "ModuleKind option"
  co_rootDir :: "string option"
  co_others :: "(string \<times> string) list"

record CompilerContext =
  options :: CompilerOptions
  baseDir :: string
  originalRootDir :: "string option"

text \<open>
  The TypeScript library and its system host: \<open>findConfigFile\<close> is
  \<^verbatim>\<open>ts.findConfigFile(searchRoot, ts.sys.fileExists, "tsconfig.json")\<close>, \<open>parseConfig\<close>
  reads and parses the configuration file at a path and yields the formatted diagnostic
  or the parsed options. The resolution cache of a context is built from its base
  directory and options and is left out.
\<close>

record tsHost =
  ts_cwd :: string
  findConfigFile :: "string \<Rightarrow> string option"
  parseConfig :: "string \<Rightarrow> string + CompilerOptions"

record tsState =
  configLookupCache :: "(string \<times> string option) list"
  compilerContextCache :: "(string \<times> CompilerContext) list"

definition DEFAULT_COMPILER_OPTIONS :: CompilerOptions where
  "DEFAULT_COMPILER_OPTIONS =
     \<lparr>co_module = Some CommonJS, co_rootDir = None,
      co_others = [(''target'', ''ES2020''), (''moduleResolution'', ''Node16''),
                   (''esModuleInterop'', ''true''), (''resolveJsonModule'', ''true''),
                   (''allowJs'', ''true''), (''skipLibCheck'', ''true'')]\<rparr>"

definition isWithinDirectory :: "string \<Rightarrow> string \<Rightarrow> string \<Rightarrow> bool" where
  "isWithinDirectory wd filePath directory =
     (let relative = path_relative wd directory filePath
      in if relative = [] then True
         else take 2 relative \<noteq> ''..'' \<and> \<not> path_isAbsolute relative)"

fun findTsConfigLoop ::
  "tsHost \<Rightarrow> (string \<times> string option) list \<Rightarrow> string list
     \<Rightarrow> string option \<times> (string \<times> string option) list" where
  "findTsConfigLoop T cache [] = (None, cache)"
| "findTsConfigLoop T cache (searchRoot # rest) =
     (let key = path_resolve (ts_cwd T) [searchRoot]
      in case map_of cache key of
           Some cached \<Rightarrow>
             (case cached of
                Some c \<Rightarrow> (if c \<noteq> [] then (Some c, cache) else findTsConfigLoop T cache rest)
              | None \<Rightarrow> findTsConfigLoop T cache rest)
         | None \<Rightarrow>
             (let resolved = findConfigFile T searchRoot;
                  cache1 = AList.update key resolved cache
              in case resolved of
                   Some r \<Rightarrow> (if r \<noteq> [] then (Some r, cache1) else findTsConfigLoop T cache1 rest)
                 | None \<Rightarrow> findTsConfigLoop T cache1 rest))"

definition findTsConfigPath ::
  "tsHost \<Rightarrow> tsState \<Rightarrow> string \<Rightarrow> string option \<Rightarrow> string option \<times> tsState" where
  "findTsConfigPath T st filePath workspace =
     (let searchOrder = path_dirname filePath #
            (case workspace of Some w \<Rightarrow> (if w \<noteq> [] then [w] else []) | None \<Rightarrow> [])
      in case findTsConfigLoop T (configLookupCache st) searchOrder of
           (found, cache) \<Rightarrow> (found, st\<lparr>configLookupCache := cache\<rparr>))"

definition getCompilerContext ::
  "tsHost \<Rightarrow> tsState \<Rightarrow> string \<Rightarrow> string option \<Rightarrow> (string + CompilerContext) \<times> tsState" where
  "getCompilerContext T st filePath workspace =
     (case findTsConfigPath T st filePath workspace of
        (None, st1) \<Rightarrow>
          (let bd = (case workspace of
                       Some w \<Rightarrow> (if w \<noteq> [] then path_resolve (ts_cwd T) [w]
                                  else path_dirname filePath)
                     | None \<Rightarrow> path_dirname filePath);
               cacheKey = ''default::'' @ bd
           in case map_of (compilerContextCache st1) cacheKey of
                Some cached \<Rightarrow> (Inr cached, st1)
              | None \<Rightarrow>
                  (let context = \<lparr>options = DEFAULT_COMPILER_OPTIONS, baseDir = bd,
                                  originalRootDir = None\<rparr>
                   in (Inr context,
                       st1\<lparr>compilerContextCache :=
                             AList.update cacheKey context (compilerContextCache st1)\<rparr>)))
      | (Some configPath, st1) \<Rightarrow>
          (let normalizedConfigPath = path_normalize configPath;
               bd = path_dirname normalizedConfigPath;
               baseKey = ''config::'' @ normalizedConfigPath;
               rootlessKey = baseKey @ ''::noRootDir'';
               cachedBase = map_of (compilerContextCache st1) baseKey;
               cachedRootless = map_of (compilerContextCache st1) rootlessKey
           in case (case cachedBase of
                      Some cb \<Rightarrow>
                        (if (case originalRootDir cb of
                               None \<Rightarrow> True
                             | Some rd \<Rightarrow> rd = [] \<or> isWithinDirectory (ts_cwd T) filePath rd)
                         then Some cb else None)
                    | None \<Rightarrow> None) of
                Some cb \<Rightarrow> (Inr cb, st1)
              | None \<Rightarrow>
                  (case cachedRootless of
                     Some cr \<Rightarrow> (Inr cr, st1)
                   | None \<Rightarrow>
                       (case parseConfig T normalizedConfigPath of
                          Inl diagnostic \<Rightarrow> (Inl diagnostic, st1)
                        | Inr parsed \<Rightarrow>
                            (let options0 = parsed\<lparr>co_module := Some CommonJS\<rparr>;
                                 original =
                                   (case co_rootDir options0 of
                                      Some rd \<Rightarrow>
                                        (if rd \<noteq> [] then Some (path_resolve (ts_cwd T) [bd, rd])
                                         else None)
                                    | None \<Rightarrow> None);
                                 outside =
                                   (case original of
                                      Some rd \<Rightarrow> \<not> isWithinDirectory (ts_cwd T) filePath rd
                                    | None \<Rightarrow> False);
                                 options1 =
                                   (if outside then options0\<lparr>co_rootDir := None\<rparr> else options0);
                                 cacheKey = (if outside then rootlessKey else baseKey);
                                 context = \<lparr>options = options1, baseDir = bd,
                                            originalRootDir = original\<rparr>
                             in (Inr context,
                                 st1\<lparr>compilerContextCache :=
                                       AList.update cacheKey context
                                         (compilerContextCache st1)\<rparr>))))))"

subsection \<open>Concrete inputs\<close>

definition exampleContext :: ProcessingContext where
  "exampleContext = \<lparr>ctx_templatePath = ''/site/page.hbs'', ctx_modulePath = ''/site/page.hbs.js'',
     ctx_workspaceFolder = None\<rparr>"

text \<open>
  A module whose export is an object with \<^verbatim>\<open>default\<close> pointing to itself (address 0),
  and chains of \<^verbatim>\<open>default\<close> wrappers of a given length ending in a plain recipe object.
\<close>

definition cyclicWorld :: jsworld where
  "cyclicWorld = \<lparr>heap = (\<lambda>a. [(''default'', Obj 0)]), callFn = (\<lambda>f c. Inr Undefined),
     callProcessor = (\<lambda>f t c. Inr t), objectToString = (\<lambda>v. ''[object Object]'')\<rparr>"

definition chainWorld :: "nat \<Rightarrow> jsworld" where
  "chainWorld n = \<lparr>heap = (\<lambda>a. if a < n then [(''default'', Obj (a + 1))]
                               else [(''title'', Str ''deep'')]),
     callFn = (\<lambda>f c. Inr Undefined),
     callProcessor = (\<lambda>f t c. Inr t), objectToString = (\<lambda>v. ''[object Object]'')\<rparr>"

text \<open>
  A module exporting \<^verbatim>\<open>{ default: { title: "A", preprocess: f }, title: 42, preprocess: "x" }\<close>:
  the outer object is at address 10, the inner one at address 2.
\<close>

definition mistypedWorld :: jsworld where
  "mistypedWorld = \<lparr>heap = (\<lambda>a. if a = 10 then [(''default'', Obj 2), (''title'', Num 42),
                                                  (''preprocess'', Str ''x'')]
                                else if a = 2 then [(''title'', Str ''A''), (''preprocess'', Fn 0)]
                                else []),
     callFn = (\<lambda>f c. Inr Undefined),
     callProcessor = (\<lambda>f t c. Inr t), objectToString = (\<lambda>v. ''[object Object]'')\<rparr>"

text \<open>
  A module exporting an object (address 10) with all four nested keys and inline fields:
  \<^verbatim>\<open>getPreviewRecipe\<close> is a function returning the object at address 2, the other keys
  hold the objects at addresses 3, 4 and 5.
\<close>

definition layeredWorld :: jsworld where
  "layeredWorld = \<lparr>heap = (\<lambda>a.
        if a = 10 then [(''getPreviewRecipe'', Fn 7), (''getPreviewConfig'', Obj 3),
                       (''getPreviewData'', Obj 4), (''default'', Obj 5),
                       (''data'', Num 1), (''title'', Num 9)]
        else if a = 2 then [(''title'', Str ''from recipe''), (''data'', Num 2), (''helpers'', Num 2),
                            (''partials'', Num 2), (''watchFiles'', Num 2)]
        else if a = 3 then [(''title'', Str ''from config''), (''helpers'', Num 3),
                            (''partials'', Num 3), (''watchFiles'', Num 3)]
        else if a = 4 then [(''partials'', Num 4), (''watchFiles'', Num 4), (''title'', Null)]
        else if a = 5 then [(''watchFiles'', Num 5)]
        else []),
     callFn = (\<lambda>f c. if f = 7 then Inr (Obj 2) else Inr Undefined),
     callProcessor = (\<lambda>f t c. Inr t), objectToString = (\<lambda>v. ''[object Object]'')\<rparr>"

text \<open>
  A companion module \<^verbatim>\<open>/site/page.hbs.js\<close> whose export (address 10) is
  \<^verbatim>\<open>{ data: () => undefined, helpers: null, partials: {...}, watchFiles: () => [...], title: "Page" }\<close>.
  The partials (address 11) are two file references, an inline string, a number, a boolean
  and a \<^verbatim>\<open>null\<close>; the watch list holds an absolute path that is not normalized, two
  spellings of the same relative path, a blank string and a number. Only the footer partial
  exists on disk; the header partial has an unsaved buffer, keyed by a path that is not
  normalized. Loading the module records one dependency. The object at address 20 is a
  partials map without file references.
\<close>

definition exampleWorld :: jsworld where
  "exampleWorld = \<lparr>heap = (\<lambda>a.
        if a = 10 then [(''data'', Fn 1), (''helpers'', Null), (''partials'', Obj 11),
                        (''watchFiles'', Fn 2), (''title'', Str ''Page'')]
        else if a = 11 then [(''header'', Obj 12), (''footer'', Obj 13),
                             (''inline'', Str ''<b>hi</b>''), (''count'', Num 5),
                             (''flag'', Bool True), (''skipped'', Null)]
        else if a = 12 then [(''file'', Str ''partials/header.hbs'')]
        else if a = 13 then [(''file'', Str ''/site/partials/footer.hbs''),
                             (''encoding'', Str ''latin1'')]
        else if a = 20 then [(''count'', Num 5), (''flag'', Bool True), (''skipped'', Null),
                             (''missing'', Undefined), (''text'', Str ''plain'')]
        else []),
     callFn = (\<lambda>f c. if f = 2 then Inr (Arr [Str ''/site/sub/../a.txt'', Str ''a.txt'',
                                                Str ''./a.txt'', Str ''  '', Num 3])
                       else Inr Undefined),
     callProcessor = (\<lambda>f t c. Inr t), objectToString = (\<lambda>v. ''[object Object]'')\<rparr>"

definition exampleHost :: host where
  "exampleHost = \<lparr>cwd = ''/work'',
     fileExists = (\<lambda>p. p = ''/site/page.hbs.js''),
     readFile = (\<lambda>p encoding. if p = ''/site/partials/footer.hbs'' \<and> encoding = Str ''latin1''
                               then Inr ''disk footer''
                               else Inl ''ENOENT: no such file or directory''),
     transpile = (\<lambda>source p w. Inr source),
     compileAndRun = (\<lambda>p source overrides.
                        if source = ''module.exports = recipe''
                        then Inr (Obj 10, [''/site/lib/util.ts''])
                        else Inl ''SyntaxError''),
     requireModule = (\<lambda>p overrides. Inr (Obj 10, [''/site/lib/../lib/util.ts'']))\<rparr>"

definition exampleOptions :: TemplateRecipeLoadOptions where
  "exampleOptions = \<lparr>moduleSource = None, moduleSourceOverrides = None,
     partialSourceOverrides = Some [(''/site/partials/./header.hbs'', ''dirty header'')],
     optWorkspaceFolder = None\<rparr>"

definition exampleRecipe :: ResolvedTemplatePreviewRecipe where
  "exampleRecipe =
     \<lparr>r_title = Str ''Page'', r_data = EmptyObj, r_helpers = EmptyObj,
      r_partials = [(''header'', ''dirty header''), (''footer'', ''disk footer''),
                    (''inline'', ''<b>hi</b>''), (''count'', ''5''), (''flag'', ''true'')],
      r_preprocess = Undefined, r_postprocess = Undefined,
      r_watchFiles = [''/site/sub/../a.txt'', ''/site/a.txt'', ''/site/a.txt'',
                      ''/site/partials/header.hbs'', ''/site/partials/footer.hbs'',
                      ''/site/lib/util.ts''],
      r_partialFiles = [(''header'', ''/site/partials/header.hbs''),
                        (''footer'', ''/site/partials/footer.hbs'')],
      r_moduleDependencies = [''/site/lib/util.ts'']\<rparr>"

text \<open>
  A project \<^verbatim>\<open>/proj\<close> whose \<^verbatim>\<open>tsconfig.json\<close> sets \<^verbatim>\<open>rootDir\<close> to
  \<^verbatim>\<open>/proj/src\<close> and a module kind other than CommonJS.
\<close>

definition projectHost :: tsHost where
  "projectHost = \<lparr>ts_cwd = ''/proj'',
     findConfigFile = (\<lambda>searchRoot. Some ''/proj/tsconfig.json''),
     parseConfig = (\<lambda>p. Inr \<lparr>co_module = Some (OtherModuleKind 99),
                                  co_rootDir = Some ''/proj/src'',
                                  co_others = [(''strict'', ''true'')]\<rparr>)\<rparr>"

definition emptyCaches :: tsState where
  "emptyCaches = \<lparr>configLookupCache = [], compilerContextCache = []\<rparr>"

text \<open>
  A render whose preprocess hook (function 3) puts an HTML comment in front of the template
  and whose postprocess hook (function 4) removes that comment from the front of the
  output; an engine that copies the template and puts the data in place of every
  \<^verbatim>\<open>@\<close>; a template whose first line holds only a Handlebars comment, and one with a
  comment inside a line.
\<close>

definition hookPrefix :: string where
  "hookPrefix = ''<!-- preview -->''"

definition hookWorld :: jsworld where
  "hookWorld = \<lparr>heap = (\<lambda>a. []), callFn = (\<lambda>f c. Inr Undefined),
     callProcessor = (\<lambda>f t c.
        if f = 3 then Inr (hookPrefix @ t)
        else if f = 4 then Inr (if take (length hookPrefix) t = hookPrefix
                                then drop (length hookPrefix) t else t)
        else Inr t),
     objectToString = (\<lambda>v. ''[object Object]'')\<rparr>"

definition fillEngine :: engine where
  "fillEngine registeredHelpers registeredPartials template d =
     Inr (concat (map (\<lambda>c. if c = CHR ''@'' then js_String hookWorld d else [c]) template))"

definition headedTemplate :: string where
  "headedTemplate = ''{{! page header }}\<newline><h1>Hi</h1>''"

definition inlineTemplate :: string where
  "inlineTemplate = ''<h1>Hi{{! greeting }}</h1>''"

definition hookRecipe :: ResolvedTemplatePreviewRecipe where
  "hookRecipe = \<lparr>r_title = Undefined, r_data = Str ''Welcome'', r_helpers = EmptyObj,
     r_partials = [], r_preprocess = Fn 3, r_postprocess = Fn 4, r_watchFiles = [],
     r_partialFiles = [], r_moduleDependencies = []\<rparr>"

section \<open>Properties\<close>

subsection \<open>Resolution depth\<close>

declare resolveRecipe.simps [simp del]

lemma resolveNested_append:
  "resolveNested W c r (xs @ ys) d acc =
     (case resolveNested W c r xs d acc of Inl e \<Rightarrow> Inl e | Inr a \<Rightarrow> resolveNested W c r ys d a)"
  by (induction xs arbitrary: acc) (auto split: sum.splits)

lemma resolveRecipe_over:
  "MAX_RESOLUTION_DEPTH < d \<Longrightarrow> resolveRecipe W c cand d = Inl DepthExceeded"
  by (simp add: resolveRecipe.simps)

lemma resolveRecipe_Fn:
  "d \<le> MAX_RESOLUTION_DEPTH \<Longrightarrow> resolveRecipe W c (Fn f) d =
     (case callFn W f c of Inl m \<Rightarrow> Inl (Thrown m) | Inr r \<Rightarrow> resolveRecipe W c r (d + 1))"
  by (simp add: resolveRecipe.simps)

lemma resolveRecipe_object:
  "d \<le> MAX_RESOLUTION_DEPTH \<Longrightarrow> \<not> isFunction cand \<Longrightarrow> truthy cand \<Longrightarrow> isObject cand \<Longrightarrow>
   resolveRecipe W c cand d =
     (case resolveNested W c cand nestedKeys (d + 1) None of
        Inl e \<Rightarrow> Inl e
      | Inr resolved \<Rightarrow> Inr (mergeRecipes resolved (Some (inlineRecipe W cand))))"
  by (cases cand) (auto simp add: resolveRecipe.simps isFunction_def)

lemma resolveRecipe_other:
  "d \<le> MAX_RESOLUTION_DEPTH \<Longrightarrow> \<not> isFunction cand \<Longrightarrow> \<not> (truthy cand \<and> isObject cand) \<Longrightarrow>
   resolveRecipe W c cand d = Inr None"
  by (cases cand) (auto simp add: resolveRecipe.simps isFunction_def)

lemma reaches_depth:
  "reaches W c cand d n \<Longrightarrow> n = Suc MAX_RESOLUTION_DEPTH \<Longrightarrow>
   resolveRecipe W c cand d = Inl DepthExceeded"
proof (induction rule: reaches.induct)
  case (reaches_here cand d)
  then show ?case by (simp add: resolveRecipe_over)
next
  case (reaches_call d f result n)
  then show ?case by (simp add: resolveRecipe_Fn)
next
  case (reaches_key d cand before key after resolved n)
  have "resolveNested W c cand [key] (d + 1) resolved = Inl DepthExceeded"
    using reaches_key.hyps reaches_key.IH reaches_key.prems by simp
  then have "resolveNested W c cand (before @ key # after) (d + 1) None = Inl DepthExceeded"
    using reaches_key.hyps(7) resolveNested_append[of W c cand before "key # after" "d + 1" None]
      resolveNested_append[of W c cand "[key]" after "d + 1" resolved] by simp
  then have "resolveNested W c cand nestedKeys (d + 1) None = Inl DepthExceeded"
    using reaches_key.hyps(5) by simp
  then show ?case
    using reaches_key.hyps by (simp add: resolveRecipe_object)
qed

lemma depth_reaches:
  "(d \<le> Suc MAX_RESOLUTION_DEPTH \<longrightarrow> resolveRecipe W c cand d = Inl DepthExceeded \<longrightarrow>
      reaches W c cand d (Suc MAX_RESOLUTION_DEPTH))"
  "(dn \<le> Suc MAX_RESOLUTION_DEPTH \<longrightarrow> resolveNested W c r keys dn acc = Inl DepthExceeded \<longrightarrow>
      (\<exists>before key after a. keys = before @ key # after \<and> getProp W r key \<noteq> Undefined
          \<and> resolveNested W c r before dn acc = Inr a
          \<and> reaches W c (getProp W r key) dn (Suc MAX_RESOLUTION_DEPTH)))"
proof (induction W c cand d and W c r keys dn acc rule: resolveRecipe_resolveNested.induct)
  case (1 W ctx candidate depth)
  show ?case
  proof (intro impI)
    assume le: "depth \<le> Suc MAX_RESOLUTION_DEPTH"
      and res: "resolveRecipe W ctx candidate depth = Inl DepthExceeded"
    show "reaches W ctx candidate depth (Suc MAX_RESOLUTION_DEPTH)"
    proof (cases "MAX_RESOLUTION_DEPTH < depth")
      case True
      with le have "depth = Suc MAX_RESOLUTION_DEPTH" by simp
      then show ?thesis by (simp add: reaches.reaches_here)
    next
      case False
      then have dle: "depth \<le> MAX_RESOLUTION_DEPTH" by simp
      show ?thesis
      proof (cases "isFunction candidate")
        case True
        then obtain f where f: "candidate = Fn f" by (cases candidate) (auto simp: isFunction_def)
        from res f dle obtain result where call: "callFn W f ctx = Inr result"
          and rec: "resolveRecipe W ctx result (depth + 1) = Inl DepthExceeded"
          by (auto simp: resolveRecipe_Fn split: sum.splits)
        from "1.IH" False f call rec dle
        have "reaches W ctx result (depth + 1) (Suc MAX_RESOLUTION_DEPTH)" by simp
        with dle call f show ?thesis by (auto intro: reaches.reaches_call)
      next
        case nf: False
        show ?thesis
        proof (cases "truthy candidate \<and> isObject candidate")
          case True
          with res dle nf have nested:
            "resolveNested W ctx candidate nestedKeys (depth + 1) None = Inl DepthExceeded"
            by (auto simp: resolveRecipe_object split: sum.splits)
          have "\<exists>before key after a. nestedKeys = before @ key # after
                  \<and> getProp W candidate key \<noteq> Undefined
                  \<and> resolveNested W ctx candidate before (depth + 1) None = Inr a
                  \<and> reaches W ctx (getProp W candidate key) (depth + 1) (Suc MAX_RESOLUTION_DEPTH)"
            using "1.IH" \<open>\<not> MAX_RESOLUTION_DEPTH < depth\<close> nf True nested dle
            by (cases candidate) (auto simp: isFunction_def)
          then show ?thesis using dle nf True by (auto intro: reaches.reaches_key)
        next
          case False
          with res dle nf show ?thesis by (simp add: resolveRecipe_other)
        qed
      qed
    qed
  qed
next
  case (2 W ctx rcd depth resolved)
  then show ?case by simp
next
  case (3 W ctx rcd key keys depth resolved)
  show ?case
  proof (intro impI)
    assume le: "depth \<le> Suc MAX_RESOLUTION_DEPTH"
      and res: "resolveNested W ctx rcd (key # keys) depth resolved = Inl DepthExceeded"
    show "\<exists>before k after a. key # keys = before @ k # after \<and> getProp W rcd k \<noteq> Undefined
          \<and> resolveNested W ctx rcd before depth resolved = Inr a
          \<and> reaches W ctx (getProp W rcd k) depth (Suc MAX_RESOLUTION_DEPTH)"
    proof (cases "getProp W rcd key = Undefined")
      case True
      with res have "resolveNested W ctx rcd keys depth resolved = Inl DepthExceeded" by simp
      with "3.IH"(1)[OF True] le obtain before k after a where
        "keys = before @ k # after" "getProp W rcd k \<noteq> Undefined"
        "resolveNested W ctx rcd before depth resolved = Inr a"
        "reaches W ctx (getProp W rcd k) depth (Suc MAX_RESOLUTION_DEPTH)" by blast
      with True show ?thesis
        by (intro exI[of _ "key # before"] exI[of _ k] exI[of _ after] exI[of _ a]) simp
    next
      case False
      show ?thesis
      proof (cases "resolveRecipe W ctx (getProp W rcd key) depth")
        case (Inl e)
        with res False have "e = DepthExceeded" by simp
        with Inl "3.IH"(2)[OF False] le
        have "reaches W ctx (getProp W rcd key) depth (Suc MAX_RESOLUTION_DEPTH)" by simp
        with False show ?thesis
          by (intro exI[of _ "[]"] exI[of _ key] exI[of _ keys] exI[of _ resolved]) simp
      next
        case (Inr nested)
        with res False have
          "resolveNested W ctx rcd keys depth (mergeRecipes resolved nested) = Inl DepthExceeded"
          by simp
        with "3.IH"(3)[OF False Inr] le obtain before k after a where
          "keys = before @ k # after" "getProp W rcd k \<noteq> Undefined"
          "resolveNested W ctx rcd before depth (mergeRecipes resolved nested) = Inr a"
          "reaches W ctx (getProp W rcd k) depth (Suc MAX_RESOLUTION_DEPTH)" by blast
        with False Inr show ?thesis
          by (intro exI[of _ "key # before"] exI[of _ k] exI[of _ after] exI[of _ a]) simp
      qed
    qed
  qed
qed

text \<open>
  Claim C3. The resolution of an exported shape is capped at ten levels of nesting.
  \<open>resolveRecipe\<close> is a total function, so a resolution always ends, also on an object
  that refers to itself. Started at depth 0 it fails with the depth-exceeded error exactly
  when it leads to an invocation nested more than \<open>MAX_RESOLUTION_DEPTH = 10\<close> levels
  deep: a shape that needs more nesting than the cap gets the error, a shape that stays
  within the cap never does.
\<close>

theorem resolveRecipe_depth_cap:
  "MAX_RESOLUTION_DEPTH = 10 \<and>
   ((resolveRecipe W ctx candidate 0 = Inl DepthExceeded)
      = reaches W ctx candidate 0 (Suc MAX_RESOLUTION_DEPTH))"
proof -
  have "resolveRecipe W ctx candidate 0 = Inl DepthExceeded
          \<Longrightarrow> reaches W ctx candidate 0 (Suc MAX_RESOLUTION_DEPTH)"
    using depth_reaches(1)[of 0 W ctx candidate] by simp
  moreover have "reaches W ctx candidate 0 (Suc MAX_RESOLUTION_DEPTH)
          \<Longrightarrow> resolveRecipe W ctx candidate 0 = Inl DepthExceeded"
    by (rule reaches_depth) simp_all
  ultimately show ?thesis by (auto simp: MAX_RESOLUTION_DEPTH_def)
qed

lemma cyclic_export_fails: "resolveRecipe cyclicWorld exampleContext (Obj 0) 0 = Inl DepthExceeded"
  by code_simp

lemma chain_of_ten_resolves:
  "resolveRecipe (chainWorld 10) exampleContext (Obj 0) 0
     = Inr (Some (emptyRecipe\<lparr>title := Str ''deep''\<rparr>))"
  by code_simp

lemma chain_of_eleven_fails:
  "resolveRecipe (chainWorld 11) exampleContext (Obj 0) 0 = Inl DepthExceeded"
  by code_simp

theorem resolveRecipe_depth_cap_witness:
  "reaches cyclicWorld exampleContext (Obj 0) 0 (Suc MAX_RESOLUTION_DEPTH)
   \<and> reaches (chainWorld 11) exampleContext (Obj 0) 0 (Suc MAX_RESOLUTION_DEPTH)
   \<and> \<not> reaches (chainWorld 10) exampleContext (Obj 0) 0 (Suc MAX_RESOLUTION_DEPTH)"
  using resolveRecipe_depth_cap[THEN conjunct2, of cyclicWorld exampleContext "Obj 0"]
    resolveRecipe_depth_cap[THEN conjunct2, of "chainWorld 11" exampleContext "Obj 0"]
    resolveRecipe_depth_cap[THEN conjunct2, of "chainWorld 10" exampleContext "Obj 0"]
    cyclic_export_fails chain_of_ten_resolves chain_of_eleven_fails
  by simp

subsection \<open>Merge order of nested keys and inline fields\<close>

lemma fieldOf_mergeRecipes:
  "fieldOf title (mergeRecipes base ov) = overrideField (fieldOf title base) (fieldOf title ov)"
  "fieldOf data (mergeRecipes base ov) = overrideField (fieldOf data base) (fieldOf data ov)"
  "fieldOf helpers (mergeRecipes base ov) = overrideField (fieldOf helpers base) (fieldOf helpers ov)"
  "fieldOf partials (mergeRecipes base ov) = overrideField (fieldOf partials base) (fieldOf partials ov)"
  "fieldOf preprocess (mergeRecipes base ov) = overrideField (fieldOf preprocess base) (fieldOf preprocess ov)"
  "fieldOf postprocess (mergeRecipes base ov) = overrideField (fieldOf postprocess base) (fieldOf postprocess ov)"
  "fieldOf watchFiles (mergeRecipes base ov) = overrideField (fieldOf watchFiles base) (fieldOf watchFiles ov)"
  by (auto simp: fieldOf_def mergeRecipes_def overrideField_def emptyRecipe_def Let_def
      split: option.splits)

lemma resolveNested_step:
  "resolveNested W c r (key # keys) d acc =
     (case nestedResult W c r key d of
        Inl e \<Rightarrow> Inl e
      | Inr nested \<Rightarrow> resolveNested W c r keys d (mergeRecipes acc nested))"
  by (simp add: nestedResult_def mergeRecipes_def)

lemma resolveRecipe_merged:
  assumes "depth \<le> MAX_RESOLUTION_DEPTH" "\<not> isFunction candidate" "truthy candidate"
    "isObject candidate"
    and "nestedResult W ctx candidate ''getPreviewRecipe'' (depth + 1) = Inr n1"
    and "nestedResult W ctx candidate ''getPreviewConfig'' (depth + 1) = Inr n2"
    and "nestedResult W ctx candidate ''getPreviewData'' (depth + 1) = Inr n3"
    and "nestedResult W ctx candidate ''default'' (depth + 1) = Inr n4"
  shows "resolveRecipe W ctx candidate depth =
     Inr (mergeRecipes (mergeRecipes (mergeRecipes (mergeRecipes (mergeRecipes None n1) n2) n3) n4)
            (Some (inlineRecipe W candidate)))"
  using assms by (simp add: resolveRecipe_object nestedKeys_def resolveNested_step del: resolveNested.simps(2))

text \<open>
  Claim C9, as amended. For an export object resolved within the depth cap, the values
  under \<^verbatim>\<open>getPreviewRecipe\<close>, \<^verbatim>\<open>getPreviewConfig\<close>, \<^verbatim>\<open>getPreviewData\<close> and
  \<^verbatim>\<open>default\<close> are resolved and merged in this order, and the inline fields of the
  object are merged last. Every field of the result is the last value of that order that
  is neither \<^verbatim>\<open>undefined\<close> nor \<^verbatim>\<open>null\<close>, where an inline \<^verbatim>\<open>title\<close> counts
  only when it is a string and an inline \<^verbatim>\<open>preprocess\<close> or \<^verbatim>\<open>postprocess\<close> only
  when it is a function.
\<close>

theorem resolveRecipe_merge_order:
  assumes "depth \<le> MAX_RESOLUTION_DEPTH" "\<not> isFunction candidate" "truthy candidate"
    "isObject candidate"
    and "nestedResult W ctx candidate ''getPreviewRecipe'' (depth + 1) = Inr n1"
    and "nestedResult W ctx candidate ''getPreviewConfig'' (depth + 1) = Inr n2"
    and "nestedResult W ctx candidate ''getPreviewData'' (depth + 1) = Inr n3"
    and "nestedResult W ctx candidate ''default'' (depth + 1) = Inr n4"
  shows "\<exists>r. resolveRecipe W ctx candidate depth = Inr (Some r)
     \<and> title r = foldl overrideField Undefined
          [fieldOf title n1, fieldOf title n2, fieldOf title n3, fieldOf title n4,
           if isString (getProp W candidate ''title'') then getProp W candidate ''title''
           else Undefined]
     \<and> data r = foldl overrideField Undefined
          [fieldOf data n1, fieldOf data n2, fieldOf data n3, fieldOf data n4,
           getProp W candidate ''data'']
     \<and> helpers r = foldl overrideField Undefined
          [fieldOf helpers n1, fieldOf helpers n2, fieldOf helpers n3, fieldOf helpers n4,
           getProp W candidate ''helpers'']
     \<and> partials r = foldl overrideField Undefined
          [fieldOf partials n1, fieldOf partials n2, fieldOf partials n3, fieldOf partials n4,
           getProp W candidate ''partials'']
     \<and> preprocess r = foldl overrideField Undefined
          [fieldOf preprocess n1, fieldOf preprocess n2, fieldOf preprocess n3,
           fieldOf preprocess n4,
           if isFunction (getProp W candidate ''preprocess'')
           then getProp W candidate ''preprocess'' else Undefined]
     \<and> postprocess r = foldl overrideField Undefined
          [fieldOf postprocess n1, fieldOf postprocess n2, fieldOf postprocess n3,
           fieldOf postprocess n4,
           if isFunction (getProp W candidate ''postprocess'')
           then getProp W candidate ''postprocess'' else Undefined]
     \<and> watchFiles r = foldl overrideField Undefined
          [fieldOf watchFiles n1, fieldOf watchFiles n2, fieldOf watchFiles n3,
           fieldOf watchFiles n4, getProp W candidate ''watchFiles'']"
proof -
  let ?m = "mergeRecipes (mergeRecipes (mergeRecipes (mergeRecipes None n1) n2) n3) n4"
  let ?res = "mergeRecipes ?m (Some (inlineRecipe W candidate))"
  have eq: "resolveRecipe W ctx candidate depth = Inr ?res"
    using assms by (rule resolveRecipe_merged)
  obtain r where r: "?res = Some r"
    by (auto simp: mergeRecipes_def Let_def)
  have f: "\<And>field. field r = fieldOf field ?res" by (simp add: r fieldOf_def)
  have none: "\<And>field. fieldOf field None = Undefined" by (simp add: fieldOf_def)
  have inl: "\<And>field. fieldOf field (Some (inlineRecipe W candidate)) = field (inlineRecipe W candidate)"
    by (simp add: fieldOf_def)
  show ?thesis
    apply (rule exI[of _ r])
    apply (simp only: eq r f)
    apply (simp only: r[symmetric] fieldOf_mergeRecipes none inl)
    apply (simp add: inlineRecipe_def)
    done
qed


lemma layered_getPreviewRecipe:
  "nestedResult layeredWorld exampleContext (Obj 10) ''getPreviewRecipe'' (0 + 1)
     = Inr (Some \<lparr>title = Str ''from recipe'', data = Num 2, helpers = Num 2, partials = Num 2,
          preprocess = Undefined, postprocess = Undefined, watchFiles = Num 2\<rparr>)"
  by code_simp

lemma layered_getPreviewConfig:
  "nestedResult layeredWorld exampleContext (Obj 10) ''getPreviewConfig'' (0 + 1)
     = Inr (Some \<lparr>title = Str ''from config'', data = Undefined, helpers = Num 3,
          partials = Num 3, preprocess = Undefined, postprocess = Undefined,
          watchFiles = Num 3\<rparr>)"
  by code_simp

lemma layered_getPreviewData:
  "nestedResult layeredWorld exampleContext (Obj 10) ''getPreviewData'' (0 + 1)
     = Inr (Some \<lparr>title = Undefined, data = Undefined, helpers = Undefined,
          partials = Num 4, preprocess = Undefined, postprocess = Undefined,
          watchFiles = Num 4\<rparr>)"
  by code_simp

lemma layered_default:
  "nestedResult layeredWorld exampleContext (Obj 10) ''default'' (0 + 1)
     = Inr (Some \<lparr>title = Undefined, data = Undefined, helpers = Undefined,
          partials = Undefined, preprocess = Undefined, postprocess = Undefined,
          watchFiles = Num 5\<rparr>)"
  by code_simp

lemma layered_inline:
  "getProp layeredWorld (Obj 10) ''title'' = Num 9"
  "getProp layeredWorld (Obj 10) ''data'' = Num 1"
  "getProp layeredWorld (Obj 10) ''helpers'' = Undefined"
  "getProp layeredWorld (Obj 10) ''partials'' = Undefined"
  "getProp layeredWorld (Obj 10) ''preprocess'' = Undefined"
  "getProp layeredWorld (Obj 10) ''postprocess'' = Undefined"
  "getProp layeredWorld (Obj 10) ''watchFiles'' = Undefined"
  by (simp_all add: getProp_def layeredWorld_def)

theorem resolveRecipe_merge_order_witness:
  "resolveRecipe layeredWorld exampleContext (Obj 10) 0
     = Inr (Some \<lparr>title = Str ''from config'', data = Num 1, helpers = Num 3, partials = Num 4,
          preprocess = Undefined, postprocess = Undefined, watchFiles = Num 5\<rparr>)"
proof -
  have "0 \<le> MAX_RESOLUTION_DEPTH" "\<not> isFunction (Obj 10)" "truthy (Obj 10)" "isObject (Obj 10)"
    by (simp_all add: isFunction_def truthy_def isObject_def)
  from resolveRecipe_merge_order[OF this layered_getPreviewRecipe layered_getPreviewConfig
      layered_getPreviewData layered_default]
  obtain r where "resolveRecipe layeredWorld exampleContext (Obj 10) 0 = Inr (Some r)"
    and "title r = Str ''from config''" "data r = Num 1" "helpers r = Num 3"
    "partials r = Num 4" "preprocess r = Undefined" "postprocess r = Undefined"
    "watchFiles r = Num 5"
    by (auto simp: layered_inline fieldOf_def overrideField_def isString_def isFunction_def)
  then show ?thesis by (cases r) simp
qed

text \<open>
  The claim as stated fails: an inline \<^verbatim>\<open>title\<close> that is a number and an inline
  \<^verbatim>\<open>preprocess\<close> that is a string are neither \<^verbatim>\<open>undefined\<close> nor \<^verbatim>\<open>null\<close>,
  and the values produced under \<^verbatim>\<open>default\<close> stay in place.
\<close>

theorem inline_field_not_merged:
  "getProp mistypedWorld (Obj 10) ''title'' = Num 42
   \<and> getProp mistypedWorld (Obj 10) ''preprocess'' = Str ''x''
   \<and> resolveRecipe mistypedWorld exampleContext (Obj 10) 0
       = Inr (Some \<lparr>title = Str ''A'', data = Undefined, helpers = Undefined,
            partials = Undefined, preprocess = Fn 0, postprocess = Undefined,
            watchFiles = Undefined\<rparr>)"
  by code_simp

subsection \<open>The loop of \<open>resolvePartials\<close>\<close>

lemma isPartialFileReference_defined:
  "isPartialFileReference W d \<Longrightarrow> d \<noteq> Undefined \<and> d \<noteq> Null"
  by (auto simp: isPartialFileReference_def)

lemma resolvePartialEntries_skip:
  "d = Undefined \<or> d = Null \<Longrightarrow>
   resolvePartialEntries H W mp ov ((n, d) # es) c f = resolvePartialEntries H W mp ov es c f"
  by auto

lemma resolvePartialEntries_inline:
  "d \<noteq> Undefined \<Longrightarrow> d \<noteq> Null \<Longrightarrow> \<not> isPartialFileReference W d \<Longrightarrow>
   resolvePartialEntries H W mp ov ((n, d) # es) c f =
     resolvePartialEntries H W mp ov es (AList.update n (js_String W d) c) f"
  by auto

lemma resolvePartialEntries_file:
  assumes "isPartialFileReference W d"
    and "resolvePartialEntries H W mp ov ((n, d) # es) c f = Inr (c', f')"
  shows "\<exists>fname content. getProp W d ''file'' = Str fname \<and> fname \<noteq> []
     \<and> (case findOverride ov (partialPath H mp fname) of
           Some t \<Rightarrow> content = t
         | None \<Rightarrow> readFile H (partialPath H mp fname)
                     (if getProp W d ''encoding'' = Undefined \<or> getProp W d ''encoding'' = Null
                      then Str ''utf8'' else getProp W d ''encoding'') = Inr content)
     \<and> resolvePartialEntries H W mp ov es (AList.update n content c)
           (AList.update n (partialPath H mp fname) f) = Inr (c', f')"
proof -
  from assms have nn: "d \<noteq> Undefined" "d \<noteq> Null"
    by (auto dest: isPartialFileReference_defined)
  from assms nn have tr: "truthy (getProp W d ''file'')"
    by (auto split: if_splits)
  from assms nn tr obtain fname where fname: "getProp W d ''file'' = Str fname"
    by (cases "getProp W d ''file''") (auto split: if_splits)
  with tr have ne: "fname \<noteq> []" by (simp add: truthy_def)
  show ?thesis
    using assms nn tr fname ne
    by (auto simp: partialPath_def Let_def split: option.splits sum.splits)
qed

lemma resolvePartialEntries_keys:
  "resolvePartialEntries H W mp ov es c f = Inr (c', f') \<Longrightarrow>
   fst ` set f' = fst ` set f \<union> {n. \<exists>d. (n, d) \<in> set es \<and> isPartialFileReference W d} \<and>
   fst ` set c' = fst ` set c \<union> {n. \<exists>d. (n, d) \<in> set es \<and> d \<noteq> Undefined \<and> d \<noteq> Null}"
proof (induction es arbitrary: c f)
  case Nil
  then show ?case by simp
next
  case (Cons e es)
  obtain n d where e: "e = (n, d)" by (cases e)
  show ?case
  proof (cases "d = Undefined \<or> d = Null")
    case True
    with Cons.prems e have "resolvePartialEntries H W mp ov es c f = Inr (c', f')" by auto
    from Cons.IH[OF this] True e show ?thesis
      by (auto dest: isPartialFileReference_defined)
  next
    case False
    show ?thesis
    proof (cases "isPartialFileReference W d")
      case True
      from resolvePartialEntries_file[OF True Cons.prems[unfolded e]]
      obtain fname content where
        "resolvePartialEntries H W mp ov es (AList.update n content c)
           (AList.update n (partialPath H mp fname) f) = Inr (c', f')" by blast
      from Cons.IH[OF this] True False e show ?thesis
        by (auto simp: dom_update)
    next
      case nf: False
      with Cons.prems e False have
        "resolvePartialEntries H W mp ov es (AList.update n (js_String W d) c) f = Inr (c', f')"
        by auto
      from Cons.IH[OF this] nf False e show ?thesis
        by (auto simp: dom_update)
    qed
  qed
qed

lemma resolvePartialEntries_untouched:
  "resolvePartialEntries H W mp ov es c f = Inr (c', f') \<Longrightarrow> n \<notin> fst ` set es \<Longrightarrow>
   map_of c' n = map_of c n \<and> map_of f' n = map_of f n"
proof (induction es arbitrary: c f)
  case Nil
  then show ?case by simp
next
  case (Cons e es)
  obtain m d where e: "e = (m, d)" by (cases e)
  with Cons.prems have neq: "m \<noteq> n" and notin: "n \<notin> fst ` set es" by auto
  show ?case
  proof (cases "d = Undefined \<or> d = Null")
    case True
    with Cons.prems e have "resolvePartialEntries H W mp ov es c f = Inr (c', f')" by auto
    from Cons.IH[OF this notin] show ?thesis .
  next
    case False
    show ?thesis
    proof (cases "isPartialFileReference W d")
      case True
      from resolvePartialEntries_file[OF True Cons.prems(1)[unfolded e]]
      obtain fname content where
        "resolvePartialEntries H W mp ov es (AList.update m content c)
           (AList.update m (partialPath H mp fname) f) = Inr (c', f')" by blast
      from Cons.IH[OF this notin] neq show ?thesis
        by (simp add: update_conv')
    next
      case nf: False
      with Cons.prems e False have
        "resolvePartialEntries H W mp ov es (AList.update m (js_String W d) c) f = Inr (c', f')"
        by auto
      from Cons.IH[OF this notin] neq show ?thesis
        by (simp add: update_conv')
    qed
  qed
qed

lemma resolvePartialEntries_entry:
  "resolvePartialEntries H W mp ov es c f = Inr (c', f') \<Longrightarrow> distinct (map fst es) \<Longrightarrow>
   (n, d) \<in> set es \<Longrightarrow>
   (d = Undefined \<or> d = Null \<longrightarrow> map_of c' n = map_of c n \<and> map_of f' n = map_of f n) \<and>
   (isPartialFileReference W d \<longrightarrow>
      (\<exists>fname content. getProp W d ''file'' = Str fname \<and> fname \<noteq> []
         \<and> (case findOverride ov (partialPath H mp fname) of
               Some t \<Rightarrow> content = t
             | None \<Rightarrow> readFile H (partialPath H mp fname)
                     (if getProp W d ''encoding'' = Undefined \<or> getProp W d ''encoding'' = Null
                      then Str ''utf8'' else getProp W d ''encoding'') = Inr content)
         \<and> map_of c' n = Some content \<and> map_of f' n = Some (partialPath H mp fname))) \<and>
   (d \<noteq> Undefined \<and> d \<noteq> Null \<and> \<not> isPartialFileReference W d \<longrightarrow>
      map_of c' n = Some (js_String W d) \<and> map_of f' n = map_of f n)"
proof (induction es arbitrary: c f)
  case Nil
  then show ?case by simp
next
  case (Cons e es)
  obtain m x where e: "e = (m, x)" by (cases e)
  from Cons.prems e have dist: "distinct (map fst es)" and mnot: "m \<notin> fst ` set es" by auto
  show ?case
  proof (cases "(n, d) = (m, x)")
    case here: True
    then have nnot: "n \<notin> fst ` set es" using mnot by simp
    show ?thesis
    proof (cases "d = Undefined \<or> d = Null")
      case True
      with Cons.prems e here have "resolvePartialEntries H W mp ov es c f = Inr (c', f')" by auto
      from resolvePartialEntries_untouched[OF this nnot] True show ?thesis
        by (auto dest: isPartialFileReference_defined)
    next
      case False
      show ?thesis
      proof (cases "isPartialFileReference W d")
        case True
        from here e Cons.prems(1) have
          "resolvePartialEntries H W mp ov ((n, d) # es) c f = Inr (c', f')" by simp
        from resolvePartialEntries_file[OF True this]
        obtain fname content where fc: "getProp W d ''file'' = Str fname" "fname \<noteq> []"
          "(case findOverride ov (partialPath H mp fname) of
               Some t \<Rightarrow> content = t
             | None \<Rightarrow> readFile H (partialPath H mp fname)
                     (if getProp W d ''encoding'' = Undefined \<or> getProp W d ''encoding'' = Null
                      then Str ''utf8'' else getProp W d ''encoding'') = Inr content)"
          and rest: "resolvePartialEntries H W mp ov es (AList.update n content c)
             (AList.update n (partialPath H mp fname) f) = Inr (c', f')" by blast
        from resolvePartialEntries_untouched[OF rest nnot]
        have "map_of c' n = Some content" "map_of f' n = Some (partialPath H mp fname)"
          by (simp_all add: update_conv')
        with fc True False show ?thesis by blast
      next
        case nf: False
        with Cons.prems e here False have
          "resolvePartialEntries H W mp ov es (AList.update n (js_String W d) c) f = Inr (c', f')"
          by auto
        from resolvePartialEntries_untouched[OF this nnot] nf False show ?thesis
          by (simp add: update_conv')
      qed
    qed
  next
    case other: False
    with Cons.prems e have mem: "(n, d) \<in> set es" by auto
    then have nm: "n \<noteq> m" using mnot by force
    show ?thesis
    proof (cases "x = Undefined \<or> x = Null")
      case True
      with Cons.prems e have "resolvePartialEntries H W mp ov es c f = Inr (c', f')" by auto
      from Cons.IH[OF this dist mem] show ?thesis .
    next
      case False
      show ?thesis
      proof (cases "isPartialFileReference W x")
        case True
        from resolvePartialEntries_file[OF True Cons.prems(1)[unfolded e]]
        obtain fname content where
          "resolvePartialEntries H W mp ov es (AList.update m content c)
             (AList.update m (partialPath H mp fname) f) = Inr (c', f')" by blast
        from Cons.IH[OF this dist mem] nm show ?thesis
          by (simp add: update_conv')
      next
        case nf: False
        with Cons.prems e False have
          "resolvePartialEntries H W mp ov es (AList.update m (js_String W x) c) f = Inr (c', f')"
          by auto
        from Cons.IH[OF this dist mem] nm show ?thesis
          by (simp add: update_conv')
      qed
    qed
  qed
qed

subsection \<open>Resolution of the recipe fields\<close>

lemma loadTemplateRecipe_success:
  assumes "loadTemplateRecipe H W deps mp ctx opts = (Inr R, deps')"
  shows "\<exists>raw recipe rp rw wl.
      loadModuleExports H deps mp (moduleSource opts)
        (case optWorkspaceFolder opts of Some w \<Rightarrow> Some w | None \<Rightarrow> ctx_workspaceFolder ctx)
        (moduleSourceOverrides opts) = (Inr raw, deps')
    \<and> resolveRecipe W ctx raw 0 = Inr recipe
    \<and> resolveMaybeFactory W (fieldOf helpers recipe) ctx EmptyObj = Inr (r_helpers R)
    \<and> resolveMaybeFactory W (fieldOf partials recipe) ctx EmptyObj = Inr rp
    \<and> resolveMaybeFactory W (fieldOf data recipe) ctx EmptyObj = Inr (r_data R)
    \<and> resolveMaybeFactory W (fieldOf watchFiles recipe) ctx (Arr []) = Inr rw
    \<and> resolvePartials H W rp mp (partialSourceOverrides opts) = Inr (r_partials R, r_partialFiles R)
    \<and> spread rw = Inr wl
    \<and> r_moduleDependencies R = getModuleDependenciesFor deps' mp
    \<and> r_watchFiles R = normalizeWatchFiles H mp
          (wl @ map Str (map snd (r_partialFiles R)) @ map Str (r_moduleDependencies R))
    \<and> r_title R = fieldOf title recipe
    \<and> r_preprocess R = fieldOf preprocess recipe
    \<and> r_postprocess R = fieldOf postprocess recipe"
  using assms
  unfolding loadTemplateRecipe_def completeRecipe_def Let_def
  by (auto split: if_splits sum.splits prod.splits)

lemma resolveMaybeFactory_resolvesTo:
  "(resolveMaybeFactory W v ctx fallback = Inr result) = resolvesTo W ctx v fallback result"
  by (cases v) (auto simp: resolveMaybeFactory_def resolvesTo_def split: sum.splits)

text \<open>
  Claim C4. In every successful \<open>loadTemplateRecipe\<close> call each of the fields
  \<^verbatim>\<open>data\<close>, \<^verbatim>\<open>helpers\<close>, \<^verbatim>\<open>partials\<close> and \<^verbatim>\<open>watchFiles\<close> of the resolved
  export is resolved on its own by the rule \<open>resolvesTo\<close>: a callable is invoked with the
  processing context and its awaited result is used, the empty default standing in when it
  returns nothing; an absent or \<^verbatim>\<open>null\<close> value gives the empty default; any other
  value is used as it is. The empty default is \<^verbatim>\<open>{}\<close> for \<^verbatim>\<open>data\<close>, \<^verbatim>\<open>helpers\<close>
  and \<^verbatim>\<open>partials\<close> and \<^verbatim>\<open>[]\<close> for \<^verbatim>\<open>watchFiles\<close>. The resolved data and helpers
  are returned as they are; the resolved partials and watch list feed \<open>resolvePartials\<close>
  and the watch set.
\<close>

theorem recipe_fields_resolved:
  assumes "loadTemplateRecipe H W deps mp ctx opts = (Inr R, deps')"
  shows "\<exists>raw recipe rp rw wl.
      loadModuleExports H deps mp (moduleSource opts)
        (case optWorkspaceFolder opts of Some w \<Rightarrow> Some w | None \<Rightarrow> ctx_workspaceFolder ctx)
        (moduleSourceOverrides opts) = (Inr raw, deps')
    \<and> resolveRecipe W ctx raw 0 = Inr recipe
    \<and> resolvesTo W ctx (fieldOf data recipe) EmptyObj (r_data R)
    \<and> resolvesTo W ctx (fieldOf helpers recipe) EmptyObj (r_helpers R)
    \<and> resolvesTo W ctx (fieldOf partials recipe) EmptyObj rp
    \<and> resolvePartials H W rp mp (partialSourceOverrides opts) = Inr (r_partials R, r_partialFiles R)
    \<and> resolvesTo W ctx (fieldOf watchFiles recipe) (Arr []) rw
    \<and> spread rw = Inr wl
    \<and> r_watchFiles R = normalizeWatchFiles H mp
          (wl @ map Str (map snd (r_partialFiles R)) @ map Str (r_moduleDependencies R))"
  using loadTemplateRecipe_success[OF assms]
  unfolding resolveMaybeFactory_resolvesTo by blast

lemma example_load:
  "loadTemplateRecipe exampleHost exampleWorld [] ''/site/page.hbs.js'' exampleContext exampleOptions
     = (Inr exampleRecipe, [(''/site/page.hbs.js'', [''/site/lib/util.ts''])])"
  by code_simp

lemma example_exports:
  "loadModuleExports exampleHost [] ''/site/page.hbs.js'' None None None
     = (Inr (Obj 10), [(''/site/page.hbs.js'', [''/site/lib/util.ts''])])"
  by code_simp

lemma example_resolved:
  "resolveRecipe exampleWorld exampleContext (Obj 10) 0
     = Inr (Some \<lparr>title = Str ''Page'', data = Fn 1, helpers = Undefined, partials = Obj 11,
          preprocess = Undefined, postprocess = Undefined, watchFiles = Fn 2\<rparr>)"
  by code_simp

theorem recipe_fields_resolved_witness:
  "resolvesTo exampleWorld exampleContext (Fn 1) EmptyObj EmptyObj
   \<and> resolvesTo exampleWorld exampleContext Undefined EmptyObj EmptyObj
   \<and> resolvesTo exampleWorld exampleContext (Obj 11) EmptyObj (Obj 11)
   \<and> (\<exists>rw. resolvesTo exampleWorld exampleContext (Fn 2) (Arr []) rw
          \<and> spread rw = Inr [Str ''/site/sub/../a.txt'', Str ''a.txt'', Str ''./a.txt'', Str ''  '', Num 3])"
proof -
  from recipe_fields_resolved[OF example_load]
  obtain raw recipe rp rw wl where
    "loadModuleExports exampleHost [] ''/site/page.hbs.js'' (moduleSource exampleOptions)
        (case optWorkspaceFolder exampleOptions of Some w \<Rightarrow> Some w
         | None \<Rightarrow> ctx_workspaceFolder exampleContext)
        (moduleSourceOverrides exampleOptions)
       = (Inr raw, [(''/site/page.hbs.js'', [''/site/lib/util.ts''])])"
    and rr: "resolveRecipe exampleWorld exampleContext raw 0 = Inr recipe"
    and f: "resolvesTo exampleWorld exampleContext (fieldOf data recipe) EmptyObj (r_data exampleRecipe)"
      "resolvesTo exampleWorld exampleContext (fieldOf helpers recipe) EmptyObj (r_helpers exampleRecipe)"
      "resolvesTo exampleWorld exampleContext (fieldOf partials recipe) EmptyObj rp"
      "resolvesTo exampleWorld exampleContext (fieldOf watchFiles recipe) (Arr []) rw"
      "spread rw = Inr wl" by blast
  then have "raw = Obj 10"
    by (simp add: exampleOptions_def exampleContext_def example_exports)
  with rr example_resolved have recipe:
    "recipe = Some \<lparr>title = Str ''Page'', data = Fn 1, helpers = Undefined, partials = Obj 11,
          preprocess = Undefined, postprocess = Undefined, watchFiles = Fn 2\<rparr>" by simp
  from f show ?thesis
    unfolding recipe
    apply (simp add: fieldOf_def exampleRecipe_def)
    apply (auto simp: resolvesTo_def exampleWorld_def spread_def)
    done
qed

subsection \<open>The watch set\<close>

lemma resolveLoop_absolute:
  "path_isAbsolute wd \<Longrightarrow> resolveLoop (ps @ [wd]) acc = (rp, b) \<Longrightarrow> b"
  by (induction ps arbitrary: acc) (auto simp: path_isAbsolute_def split: if_splits list.splits)

lemma path_resolve_absolute:
  "path_isAbsolute wd \<Longrightarrow> path_isAbsolute (path_resolve wd args)"
proof -
  assume wd: "path_isAbsolute wd"
  obtain rp b where r: "resolveLoop (rev args @ [wd]) [] = (rp, b)" by (cases "resolveLoop (rev args @ [wd]) []")
  from resolveLoop_absolute[OF wd r] have b by simp
  with r show ?thesis by (simp add: path_resolve_def path_isAbsolute_def Let_def)
qed

lemma path_normalize_absolute:
  "path_isAbsolute p \<Longrightarrow> path_isAbsolute (path_normalize p)"
  by (cases p) (auto simp: path_isAbsolute_def path_normalize_def Let_def)


lemma partialPath_absolute:
  "path_isAbsolute (cwd H) \<Longrightarrow> path_isAbsolute (partialPath H mp fname)"
  by (simp add: partialPath_def resolveRelativeToModule_def path_normalize_absolute
      path_resolve_absolute)

lemma absolute_not_blank: "path_isAbsolute p \<Longrightarrow> \<not> isBlank p"
  by (cases p) (auto simp: path_isAbsolute_def isBlank_def isWhiteSpace_def)

lemma set_dedupe: "set (dedupe seen xs) = set xs - set seen"
  by (induction seen xs rule: dedupe.induct) auto

lemma distinct_dedupe: "distinct (dedupe seen xs)"
  by (induction seen xs rule: dedupe.induct) (auto simp: set_dedupe)

lemma set_map_filter: "set (List.map_filter g xs) = {y. \<exists>x \<in> set xs. g x = Some y}"
  by (induction xs) (auto split: option.splits)

lemma watchString_Some: "(watchString e = Some s) = (e = Str s \<and> \<not> isBlank s)"
  by (cases e) (auto simp: watchString_def)

lemma set_normalizeWatchFiles:
  "set (normalizeWatchFiles H mp entries) =
     resolveWatchEntry H mp ` {s. \<not> isBlank s \<and> Str s \<in> set entries}"
  by (auto simp: normalizeWatchFiles_def set_map_filter set_dedupe watchString_Some)


lemma normalizeWatchFiles_keeps_absolute:
  "path_isAbsolute p \<Longrightarrow> Str p \<in> set entries \<Longrightarrow> p \<in> set (normalizeWatchFiles H mp entries)"
proof -
  assume a: "path_isAbsolute p" and m: "Str p \<in> set entries"
  then have "p \<in> {s. \<not> isBlank s \<and> Str s \<in> set entries}" by (simp add: absolute_not_blank)
  moreover have "resolveWatchEntry H mp p = p" using a by (simp add: resolveWatchEntry_def)
  ultimately show ?thesis unfolding set_normalizeWatchFiles by force
qed



lemma map_of_in_snd: "map_of al k = Some v \<Longrightarrow> v \<in> snd ` set al"
  by (force dest: map_of_SomeD)

lemma not_in_keys: "(k \<notin> fst ` set al) = (map_of al k = None)"
  by (simp add: map_of_eq_None_iff)




lemma example_cwd: "path_isAbsolute (cwd exampleHost)"
  by (simp add: exampleHost_def path_isAbsolute_def)



lemma findNormalized_Some:
  "findNormalized ovs p = Some t \<Longrightarrow> \<exists>k. (k, t) \<in> set ovs \<and> path_normalize k = p"
  by (induction ovs p rule: findNormalized.induct) (auto split: if_splits)

lemma findNormalized_finds:
  "(k, t) \<in> set ovs \<Longrightarrow> path_normalize k = p \<Longrightarrow> \<exists>t'. findNormalized ovs p = Some t'"
  by (induction ovs p rule: findNormalized.induct) auto

lemma findOverride_match:
  assumes "(k, t) \<in> set ovs" and "k = p \<or> path_normalize k = p"
  shows "\<exists>k' t'. (k', t') \<in> set ovs \<and> (k' = p \<or> path_normalize k' = p)
           \<and> findOverride (Some ovs) p = Some t'"
proof (cases "map_of ovs p")
  case (Some v)
  then have "(p, v) \<in> set ovs" by (rule map_of_SomeD)
  with Some show ?thesis by (auto simp: findOverride_def)
next
  case None
  then have "p \<notin> fst ` set ovs" by (simp add: map_of_eq_None_iff)
  with assms have "path_normalize k = p" by force
  from findNormalized_finds[OF assms(1) this] obtain t' where f: "findNormalized ovs p = Some t'"
    by blast
  from findNormalized_Some[OF f] obtain k' where "(k', t') \<in> set ovs" "path_normalize k' = p"
    by blast
  with None f show ?thesis by (auto simp: findOverride_def)
qed

subsection \<open>Partial source overrides\<close>

text \<open>
  Claim C5. In every successful \<open>loadTemplateRecipe\<close> call, for a file-backed partial
  whose resolved path \<open>partialPath\<close> is the key of a partial source override, exactly or
  after normalizing the key, the content of the partial is the text of such an override
  (the one \<open>findOverride\<close> returns), whatever the file system holds at that path; the
  resolved path is recorded under the partial's name in \<^verbatim>\<open>partialFiles\<close> and is an
  element of \<^verbatim>\<open>watchFiles\<close>.
\<close>

theorem partial_override_used:
  assumes "loadTemplateRecipe H W deps mp ctx opts = (Inr R, deps')"
    and "path_isAbsolute (cwd H)"
  shows "\<exists>raw recipe rp.
      loadModuleExports H deps mp (moduleSource opts)
        (case optWorkspaceFolder opts of Some w \<Rightarrow> Some w | None \<Rightarrow> ctx_workspaceFolder ctx)
        (moduleSourceOverrides opts) = (Inr raw, deps')
    \<and> resolveRecipe W ctx raw 0 = Inr recipe
    \<and> resolveMaybeFactory W (fieldOf partials recipe) ctx EmptyObj = Inr rp
    \<and> (\<forall>n d fname ovs k t.
          distinct (map fst (objectEntries W rp)) \<and> (n, d) \<in> set (objectEntries W rp)
          \<and> isPartialFileReference W d \<and> getProp W d ''file'' = Str fname
          \<and> partialSourceOverrides opts = Some ovs \<and> (k, t) \<in> set ovs
          \<and> (k = partialPath H mp fname \<or> path_normalize k = partialPath H mp fname)
          \<longrightarrow> (\<exists>k' t'. (k', t') \<in> set ovs
                   \<and> (k' = partialPath H mp fname \<or> path_normalize k' = partialPath H mp fname)
                   \<and> findOverride (partialSourceOverrides opts) (partialPath H mp fname) = Some t'
                   \<and> map_of (r_partials R) n = Some t')
              \<and> map_of (r_partialFiles R) n = Some (partialPath H mp fname)
              \<and> partialPath H mp fname \<in> set (r_watchFiles R))"
proof -
  from loadTemplateRecipe_success[OF assms(1)]
  obtain raw recipe rp rw wl where
    ex: "loadModuleExports H deps mp (moduleSource opts)
        (case optWorkspaceFolder opts of Some w \<Rightarrow> Some w | None \<Rightarrow> ctx_workspaceFolder ctx)
        (moduleSourceOverrides opts) = (Inr raw, deps')"
    and rr: "resolveRecipe W ctx raw 0 = Inr recipe"
    and rpv: "resolveMaybeFactory W (fieldOf partials recipe) ctx EmptyObj = Inr rp"
    and rp: "resolvePartials H W rp mp (partialSourceOverrides opts)
               = Inr (r_partials R, r_partialFiles R)"
    and wf: "r_watchFiles R = normalizeWatchFiles H mp
          (wl @ map Str (map snd (r_partialFiles R)) @ map Str (r_moduleDependencies R))"
    by blast
  have main: "(\<exists>k' t'. (k', t') \<in> set ovs
                   \<and> (k' = partialPath H mp fname \<or> path_normalize k' = partialPath H mp fname)
                   \<and> findOverride (partialSourceOverrides opts) (partialPath H mp fname) = Some t'
                   \<and> map_of (r_partials R) n = Some t')
              \<and> map_of (r_partialFiles R) n = Some (partialPath H mp fname)
              \<and> partialPath H mp fname \<in> set (r_watchFiles R)"
    if h: "distinct (map fst (objectEntries W rp))" "(n, d) \<in> set (objectEntries W rp)"
      "isPartialFileReference W d" "getProp W d ''file'' = Str fname"
      "partialSourceOverrides opts = Some ovs" "(k, t) \<in> set ovs"
      "k = partialPath H mp fname \<or> path_normalize k = partialPath H mp fname"
    for n d fname ovs k t
  proof -
    from findOverride_match[OF h(6) h(7)] obtain k' t' where
      m: "(k', t') \<in> set ovs"
        "k' = partialPath H mp fname \<or> path_normalize k' = partialPath H mp fname"
        "findOverride (Some ovs) (partialPath H mp fname) = Some t'" by blast
    from resolvePartialEntries_entry[OF rp[unfolded resolvePartials_def] h(1) h(2)] h(3)
    obtain fname' content where
      e: "getProp W d ''file'' = Str fname'"
        "(case findOverride (partialSourceOverrides opts) (partialPath H mp fname') of
            Some t \<Rightarrow> content = t
          | None \<Rightarrow> readFile H (partialPath H mp fname')
                     (if getProp W d ''encoding'' = Undefined \<or> getProp W d ''encoding'' = Null
                      then Str ''utf8'' else getProp W d ''encoding'') = Inr content)"
        "map_of (r_partials R) n = Some content"
        "map_of (r_partialFiles R) n = Some (partialPath H mp fname')" by blast
    from e(1) h(4) have same: "fname' = fname" by simp
    from e(2) m(3) h(5) same have c: "content = t'" by simp
    have abs: "path_isAbsolute (partialPath H mp fname)"
      by (rule partialPath_absolute[OF assms(2)])
    from e(4) same have "partialPath H mp fname \<in> snd ` set (r_partialFiles R)"
      by (auto dest: map_of_in_snd)
    then have "Str (partialPath H mp fname)
        \<in> set (wl @ map Str (map snd (r_partialFiles R)) @ map Str (r_moduleDependencies R))"
      by auto
    from normalizeWatchFiles_keeps_absolute[OF abs this]
    have w: "partialPath H mp fname \<in> set (r_watchFiles R)" by (simp only: wf)
    from m e c same w h(5) show ?thesis by auto
  qed
  from ex rr rpv main show ?thesis by blast
qed


lemma example_exports_options:
  "loadModuleExports exampleHost [] ''/site/page.hbs.js'' (moduleSource exampleOptions)
        (case optWorkspaceFolder exampleOptions of Some w \<Rightarrow> Some w
         | None \<Rightarrow> ctx_workspaceFolder exampleContext)
        (moduleSourceOverrides exampleOptions)
     = (Inr (Obj 10), [(''/site/page.hbs.js'', [''/site/lib/util.ts''])])"
  by code_simp

lemma example_partials_value:
  assumes "loadModuleExports exampleHost [] ''/site/page.hbs.js'' (moduleSource exampleOptions)
        (case optWorkspaceFolder exampleOptions of Some w \<Rightarrow> Some w
         | None \<Rightarrow> ctx_workspaceFolder exampleContext)
        (moduleSourceOverrides exampleOptions) = (Inr raw, ds)"
    and "resolveRecipe exampleWorld exampleContext raw 0 = Inr recipe"
    and "resolveMaybeFactory exampleWorld (fieldOf partials recipe) exampleContext EmptyObj = Inr rp"
  shows "rp = Obj 11"
proof -
  from assms(1) have "raw = Obj 10" by (simp add: example_exports_options)
  with assms(2) have "recipe = Some \<lparr>title = Str ''Page'', data = Fn 1, helpers = Undefined,
      partials = Obj 11, preprocess = Undefined, postprocess = Undefined, watchFiles = Fn 2\<rparr>"
    by (simp add: example_resolved)
  with assms(3) show ?thesis by (simp add: fieldOf_def resolveMaybeFactory_def)
qed

lemma example_entries:
  "objectEntries exampleWorld (Obj 11)
     = [(''header'', Obj 12), (''footer'', Obj 13), (''inline'', Str ''<b>hi</b>''),
        (''count'', Num 5), (''flag'', Bool True), (''skipped'', Null)]"
  by (simp add: objectEntries_def exampleWorld_def)

lemma example_header:
  "isPartialFileReference exampleWorld (Obj 12)"
  "getProp exampleWorld (Obj 12) ''file'' = Str ''partials/header.hbs''"
  "partialPath exampleHost ''/site/page.hbs.js'' ''partials/header.hbs''
     = ''/site/partials/header.hbs''"
  "path_normalize ''/site/partials/./header.hbs'' = ''/site/partials/header.hbs''"
  "readFile exampleHost ''/site/partials/header.hbs'' (Str ''utf8'')
     = Inl ''ENOENT: no such file or directory''"
  by code_simp+

theorem partial_override_used_witness:
  "map_of (r_partials exampleRecipe) ''header'' = Some ''dirty header''
   \<and> readFile exampleHost ''/site/partials/header.hbs'' (Str ''utf8'')
       = Inl ''ENOENT: no such file or directory''
   \<and> map_of (r_partialFiles exampleRecipe) ''header'' = Some ''/site/partials/header.hbs''
   \<and> ''/site/partials/header.hbs'' \<in> set (r_watchFiles exampleRecipe)"
proof -
  from partial_override_used[OF example_load example_cwd]
  obtain raw recipe rp where
    st: "loadModuleExports exampleHost [] ''/site/page.hbs.js'' (moduleSource exampleOptions)
        (case optWorkspaceFolder exampleOptions of Some w \<Rightarrow> Some w
         | None \<Rightarrow> ctx_workspaceFolder exampleContext)
        (moduleSourceOverrides exampleOptions)
         = (Inr raw, [(''/site/page.hbs.js'', [''/site/lib/util.ts''])])"
      "resolveRecipe exampleWorld exampleContext raw 0 = Inr recipe"
      "resolveMaybeFactory exampleWorld (fieldOf partials recipe) exampleContext EmptyObj = Inr rp"
    and all: "\<forall>n d fname ovs k t.
          distinct (map fst (objectEntries exampleWorld rp))
          \<and> (n, d) \<in> set (objectEntries exampleWorld rp)
          \<and> isPartialFileReference exampleWorld d \<and> getProp exampleWorld d ''file'' = Str fname
          \<and> partialSourceOverrides exampleOptions = Some ovs \<and> (k, t) \<in> set ovs
          \<and> (k = partialPath exampleHost ''/site/page.hbs.js'' fname
               \<or> path_normalize k = partialPath exampleHost ''/site/page.hbs.js'' fname)
          \<longrightarrow> (\<exists>k' t'. (k', t') \<in> set ovs
                   \<and> (k' = partialPath exampleHost ''/site/page.hbs.js'' fname
                        \<or> path_normalize k' = partialPath exampleHost ''/site/page.hbs.js'' fname)
                   \<and> findOverride (partialSourceOverrides exampleOptions)
                         (partialPath exampleHost ''/site/page.hbs.js'' fname) = Some t'
                   \<and> map_of (r_partials exampleRecipe) n = Some t')
              \<and> map_of (r_partialFiles exampleRecipe) n
                   = Some (partialPath exampleHost ''/site/page.hbs.js'' fname)
              \<and> partialPath exampleHost ''/site/page.hbs.js'' fname
                   \<in> set (r_watchFiles exampleRecipe)"
    by blast
  have rp: "rp = Obj 11" by (rule example_partials_value[OF st])
  have hyp: "distinct (map fst (objectEntries exampleWorld rp))
          \<and> (''header'', Obj 12) \<in> set (objectEntries exampleWorld rp)
          \<and> isPartialFileReference exampleWorld (Obj 12)
          \<and> getProp exampleWorld (Obj 12) ''file'' = Str ''partials/header.hbs''
          \<and> partialSourceOverrides exampleOptions
               = Some [(''/site/partials/./header.hbs'', ''dirty header'')]
          \<and> (''/site/partials/./header.hbs'', ''dirty header'')
               \<in> set [(''/site/partials/./header.hbs'', ''dirty header'')]
          \<and> (''/site/partials/./header.hbs''
                 = partialPath exampleHost ''/site/page.hbs.js'' ''partials/header.hbs''
               \<or> path_normalize ''/site/partials/./header.hbs''
                 = partialPath exampleHost ''/site/page.hbs.js'' ''partials/header.hbs'')"
    unfolding rp example_entries by (simp add: example_header exampleOptions_def)
  from all[rule_format, OF hyp] show ?thesis
    by (auto simp: example_header)
qed

subsection \<open>Keys of \<^verbatim>\<open>partials\<close> and \<^verbatim>\<open>partialFiles\<close>\<close>

text \<open>
  Claim C6. In every recipe returned by \<open>loadTemplateRecipe\<close> the keys of
  \<^verbatim>\<open>partialFiles\<close> are exactly the names of the partials whose definition is a file
  reference, and each of them is also a key of \<^verbatim>\<open>partials\<close>; an inline string partial
  is in \<^verbatim>\<open>partials\<close> with its text and has no entry in \<^verbatim>\<open>partialFiles\<close>.
\<close>

theorem partialFiles_keys:
  assumes "loadTemplateRecipe H W deps mp ctx opts = (Inr R, deps')"
  shows "\<exists>raw recipe rp.
      loadModuleExports H deps mp (moduleSource opts)
        (case optWorkspaceFolder opts of Some w \<Rightarrow> Some w | None \<Rightarrow> ctx_workspaceFolder ctx)
        (moduleSourceOverrides opts) = (Inr raw, deps')
    \<and> resolveRecipe W ctx raw 0 = Inr recipe
    \<and> resolveMaybeFactory W (fieldOf partials recipe) ctx EmptyObj = Inr rp
    \<and> fst ` set (r_partialFiles R)
         = {n. \<exists>d. (n, d) \<in> set (objectEntries W rp) \<and> isPartialFileReference W d}
    \<and> fst ` set (r_partialFiles R) \<subseteq> fst ` set (r_partials R)
    \<and> (\<forall>n s. distinct (map fst (objectEntries W rp)) \<and> (n, Str s) \<in> set (objectEntries W rp)
          \<longrightarrow> map_of (r_partials R) n = Some s \<and> n \<notin> fst ` set (r_partialFiles R))"
proof -
  from loadTemplateRecipe_success[OF assms]
  obtain raw recipe rp where
    ex: "loadModuleExports H deps mp (moduleSource opts)
        (case optWorkspaceFolder opts of Some w \<Rightarrow> Some w | None \<Rightarrow> ctx_workspaceFolder ctx)
        (moduleSourceOverrides opts) = (Inr raw, deps')"
    and rr: "resolveRecipe W ctx raw 0 = Inr recipe"
    and rpv: "resolveMaybeFactory W (fieldOf partials recipe) ctx EmptyObj = Inr rp"
    and rp: "resolvePartialEntries H W mp (partialSourceOverrides opts) (objectEntries W rp) [] []
               = Inr (r_partials R, r_partialFiles R)"
    unfolding resolvePartials_def by blast
  from resolvePartialEntries_keys[OF rp]
  have k: "fst ` set (r_partialFiles R)
         = {n. \<exists>d. (n, d) \<in> set (objectEntries W rp) \<and> isPartialFileReference W d}"
    and kc: "fst ` set (r_partials R)
         = {n. \<exists>d. (n, d) \<in> set (objectEntries W rp) \<and> d \<noteq> Undefined \<and> d \<noteq> Null}"
    by simp_all
  have sub: "fst ` set (r_partialFiles R) \<subseteq> fst ` set (r_partials R)"
    unfolding k kc by (auto dest: isPartialFileReference_defined)
  have inl: "map_of (r_partials R) n = Some s \<and> n \<notin> fst ` set (r_partialFiles R)"
    if "distinct (map fst (objectEntries W rp))" "(n, Str s) \<in> set (objectEntries W rp)" for n s
    using resolvePartialEntries_entry[OF rp that]
    by (simp add: isPartialFileReference_def js_String_def not_in_keys)
  from ex rr rpv k sub inl show ?thesis by blast
qed


lemma keys_where:
  "{n. \<exists>d. (n, d) \<in> set l \<and> P d} = set (map fst (filter (\<lambda>(n, d). P d) l))"
  by force

theorem partialFiles_keys_witness:
  "fst ` set (r_partialFiles exampleRecipe) = {''header'', ''footer''}
   \<and> fst ` set (r_partialFiles exampleRecipe) \<subseteq> fst ` set (r_partials exampleRecipe)
   \<and> map_of (r_partials exampleRecipe) ''inline'' = Some ''<b>hi</b>''
   \<and> ''inline'' \<notin> fst ` set (r_partialFiles exampleRecipe)"
proof -
  from partialFiles_keys[OF example_load]
  obtain raw recipe rp where
    st: "loadModuleExports exampleHost [] ''/site/page.hbs.js'' (moduleSource exampleOptions)
        (case optWorkspaceFolder exampleOptions of Some w \<Rightarrow> Some w
         | None \<Rightarrow> ctx_workspaceFolder exampleContext)
        (moduleSourceOverrides exampleOptions)
         = (Inr raw, [(''/site/page.hbs.js'', [''/site/lib/util.ts''])])"
      "resolveRecipe exampleWorld exampleContext raw 0 = Inr recipe"
      "resolveMaybeFactory exampleWorld (fieldOf partials recipe) exampleContext EmptyObj = Inr rp"
    and k: "fst ` set (r_partialFiles exampleRecipe)
         = {n. \<exists>d. (n, d) \<in> set (objectEntries exampleWorld rp)
                 \<and> isPartialFileReference exampleWorld d}"
    and sub: "fst ` set (r_partialFiles exampleRecipe) \<subseteq> fst ` set (r_partials exampleRecipe)"
    and inl: "\<forall>n s. distinct (map fst (objectEntries exampleWorld rp))
          \<and> (n, Str s) \<in> set (objectEntries exampleWorld rp)
          \<longrightarrow> map_of (r_partials exampleRecipe) n = Some s
              \<and> n \<notin> fst ` set (r_partialFiles exampleRecipe)"
    by (elim exE conjE)
  have rp: "rp = Obj 11" by (rule example_partials_value[OF st])
  have "map fst (filter (\<lambda>(n, d). isPartialFileReference exampleWorld d)
                (objectEntries exampleWorld (Obj 11))) = [''header'', ''footer'']"
    by code_simp
  then have refs: "{n. \<exists>d. (n, d) \<in> set (objectEntries exampleWorld (Obj 11))
                 \<and> isPartialFileReference exampleWorld d} = {''header'', ''footer''}"
    unfolding keys_where by simp
  have hyp: "distinct (map fst (objectEntries exampleWorld rp))
          \<and> (''inline'', Str ''<b>hi</b>'') \<in> set (objectEntries exampleWorld rp)"
    unfolding rp example_entries by simp
  from inl[rule_format, OF hyp] have i: "map_of (r_partials exampleRecipe) ''inline'' = Some ''<b>hi</b>''"
    "''inline'' \<notin> fst ` set (r_partialFiles exampleRecipe)" by simp_all
  from k refs rp have "fst ` set (r_partialFiles exampleRecipe) = {''header'', ''footer''}"
    by (simp only:)
  with sub i show ?thesis by (simp only: simp_thms)
qed


subsection \<open>Partial entries that are not file references\<close>

lemma resolvePartialEntries_no_references:
  "\<forall>n d. (n, d) \<in> set es \<longrightarrow> \<not> isPartialFileReference W d \<Longrightarrow>
   \<exists>c'. resolvePartialEntries H W mp ov es c f = Inr (c', f)"
proof (induction es arbitrary: c)
  case Nil
  then show ?case by simp
next
  case (Cons e es)
  obtain n d where e: "e = (n, d)" by (cases e)
  from Cons.prems e have nf: "\<not> isPartialFileReference W d" by auto
  from Cons.prems have rest: "\<forall>n d. (n, d) \<in> set es \<longrightarrow> \<not> isPartialFileReference W d" by auto
  show ?case
  proof (cases "d = Undefined \<or> d = Null")
    case True
    from Cons.IH[OF rest, of c] show ?thesis
      unfolding e by (simp only: resolvePartialEntries_skip[OF True])
  next
    case False
    then have dd: "d \<noteq> Undefined" "d \<noteq> Null" by simp_all
    from Cons.IH[OF rest, of "AList.update n (js_String W d) c"] show ?thesis
      unfolding e by (simp only: resolvePartialEntries_inline[OF dd nf])
  qed
qed

text \<open>
  Claim C10. During partial resolution an entry whose value is \<^verbatim>\<open>null\<close> or
  \<^verbatim>\<open>undefined\<close> is skipped: its name is in neither \<^verbatim>\<open>partials\<close> nor
  \<^verbatim>\<open>partialFiles\<close>. Any other value that is not an object with a \<^verbatim>\<open>file\<close> property
  is turned into its string representation and used as inline content, with no entry in
  \<^verbatim>\<open>partialFiles\<close>. No such entry raises an error: when no entry is a file reference the
  resolution succeeds.
\<close>

theorem partial_entries_skipped_or_coerced:
  "((\<forall>n d. (n, d) \<in> set (objectEntries W pv) \<longrightarrow> \<not> isPartialFileReference W d)
      \<longrightarrow> (\<exists>c. resolvePartials H W pv mp ov = Inr (c, [])))
   \<and> (resolvePartials H W pv mp ov = Inr (c, f) \<and> distinct (map fst (objectEntries W pv))
        \<and> (n, d) \<in> set (objectEntries W pv)
      \<longrightarrow> (d = Undefined \<or> d = Null \<longrightarrow> n \<notin> fst ` set c \<and> n \<notin> fst ` set f)
          \<and> (d \<noteq> Undefined \<and> d \<noteq> Null \<and> \<not> isPartialFileReference W d
               \<longrightarrow> map_of c n = Some (js_String W d) \<and> n \<notin> fst ` set f))"
proof (intro conjI impI)
  assume "\<forall>n d. (n, d) \<in> set (objectEntries W pv) \<longrightarrow> \<not> isPartialFileReference W d"
  from resolvePartialEntries_no_references[OF this]
  show "\<exists>c. resolvePartials H W pv mp ov = Inr (c, [])"
    by (simp add: resolvePartials_def)
next
  assume a: "resolvePartials H W pv mp ov = Inr (c, f) \<and> distinct (map fst (objectEntries W pv))
        \<and> (n, d) \<in> set (objectEntries W pv)"
  then have e: "resolvePartialEntries H W mp ov (objectEntries W pv) [] [] = Inr (c, f)"
    by (simp add: resolvePartials_def)
  note ent = resolvePartialEntries_entry[OF e conjunct1[OF conjunct2[OF a]]
      conjunct2[OF conjunct2[OF a]]]
  { assume "d = Undefined \<or> d = Null"
    with ent show "n \<notin> fst ` set c" by (simp add: not_in_keys) }
  { assume "d = Undefined \<or> d = Null"
    with ent show "n \<notin> fst ` set f" by (simp add: not_in_keys) }
  { assume "d \<noteq> Undefined \<and> d \<noteq> Null \<and> \<not> isPartialFileReference W d"
    with ent show "map_of c n = Some (js_String W d)" by simp }
  { assume "d \<noteq> Undefined \<and> d \<noteq> Null \<and> \<not> isPartialFileReference W d"
    with ent show "n \<notin> fst ` set f" by (simp add: not_in_keys) }
qed

lemma example_plain_partials:
  "resolvePartials exampleHost exampleWorld (Obj 20) ''/site/page.hbs.js'' None
     = Inr ([(''count'', ''5''), (''flag'', ''true''), (''text'', ''plain'')], [])"
  by code_simp

lemma example_plain_entries:
  "objectEntries exampleWorld (Obj 20)
     = [(''count'', Num 5), (''flag'', Bool True), (''skipped'', Null),
        (''missing'', Undefined), (''text'', Str ''plain'')]"
  by (simp add: objectEntries_def exampleWorld_def)

lemma example_plain_strings:
  "js_String exampleWorld (Num 5) = ''5''"
  "js_String exampleWorld (Bool True) = ''true''"
  by code_simp+

theorem partial_entries_skipped_or_coerced_witness:
  "(\<exists>c. resolvePartials exampleHost exampleWorld (Obj 20) ''/site/page.hbs.js'' None = Inr (c, []))
   \<and> map_of [(''count'', ''5''), (''flag'', ''true''), (''text'', ''plain'')] ''count''
        = Some (js_String exampleWorld (Num 5))
   \<and> map_of [(''count'', ''5''), (''flag'', ''true''), (''text'', ''plain'')] ''flag''
        = Some (js_String exampleWorld (Bool True))
   \<and> ''skipped'' \<notin> fst ` set [(''count'', ''5''), (''flag'', ''true''), (''text'', ''plain'')]
   \<and> ''missing'' \<notin> fst ` set [(''count'', ''5''), (''flag'', ''true''), (''text'', ''plain'')]"
proof -
  let ?c = "[(''count'', ''5''), (''flag'', ''true''), (''text'', ''plain'')]"
  have none: "\<forall>n d. (n, d) \<in> set (objectEntries exampleWorld (Obj 20))
      \<longrightarrow> \<not> isPartialFileReference exampleWorld d"
    unfolding example_plain_entries by (auto simp: isPartialFileReference_def)
  have d: "distinct (map fst (objectEntries exampleWorld (Obj 20)))"
    unfolding example_plain_entries by simp
  note inst = partial_entries_skipped_or_coerced[of exampleWorld "Obj 20" exampleHost
      "''/site/page.hbs.js''" None ?c "[]"]
  from inst[of "''count''" "Num 5", THEN conjunct1] none
  have a: "\<exists>c. resolvePartials exampleHost exampleWorld (Obj 20) ''/site/page.hbs.js'' None
             = Inr (c, [])" by (rule mp)
  have b: "map_of ?c ''count'' = Some (js_String exampleWorld (Num 5))"
    using inst[of "''count''" "Num 5", THEN conjunct2] example_plain_partials d
    by (simp add: example_plain_entries isPartialFileReference_def)
  have c: "map_of ?c ''flag'' = Some (js_String exampleWorld (Bool True))"
    using inst[of "''flag''" "Bool True", THEN conjunct2] example_plain_partials d
    by (simp add: example_plain_entries isPartialFileReference_def)
  have e: "''skipped'' \<notin> fst ` set ?c"
    using inst[of "''skipped''" Null, THEN conjunct2] example_plain_partials d
    by (simp add: example_plain_entries)
  have f: "''missing'' \<notin> fst ` set ?c"
    using inst[of "''missing''" Undefined, THEN conjunct2] example_plain_partials d
    by (simp add: example_plain_entries)
  from a b c e f show ?thesis by (simp only: simp_thms)
qed

subsection \<open>Absent modules and source overrides\<close>

lemma resolveCompanionModule_none:
  "\<forall>c \<in> set candidates. map_of dirty (path_normalize c) = None \<and> \<not> fileExists H (path_normalize c)
   \<Longrightarrow> resolveCompanionModule H candidates dirty = None"
  by (induction candidates) (simp_all add: Let_def)

text \<open>
  Claim C1, as amended. When no module source override is supplied and the file at the
  module path does not exist, \<open>loadTemplateRecipe\<close> fails with the error
  \<^verbatim>\<open>Companion module not found\<close> and leaves the dependency map as it was. The recipe
  with empty data, helpers and partials and no watch files is what \<open>render\<close> of the
  preview manager uses, without calling \<open>loadTemplateRecipe\<close>, when no candidate module
  has an unsaved buffer or exists on disk. When a source override is supplied the file
  system is not asked whether the module exists: the override (transpiled first when the
  path ends in \<^verbatim>\<open>.ts\<close>) is compiled and run, and the recipe is completed from its
  exports.
\<close>

theorem loadTemplateRecipe_module_presence:
  "(moduleSource opts = None \<and> \<not> fileExists H mp
      \<longrightarrow> loadTemplateRecipe H W deps mp ctx opts = (Inl (ModuleNotFound mp), deps))
   \<and> ((\<forall>c \<in> set candidates. map_of dirty (path_normalize c) = None
                              \<and> \<not> fileExists H (path_normalize c))
      \<longrightarrow> renderRecipe H W deps candidates dirty ctx = (Inr createDefaultRecipe, deps)
          \<and> r_data createDefaultRecipe = EmptyObj \<and> r_helpers createDefaultRecipe = EmptyObj
          \<and> r_partials createDefaultRecipe = [] \<and> r_watchFiles createDefaultRecipe = [])
   \<and> (moduleSource opts = Some source
        \<and> (if toLowerCase (path_extname mp) = ''.ts''
            then transpile H source mp
                   (case optWorkspaceFolder opts of Some w \<Rightarrow> Some w
                    | None \<Rightarrow> ctx_workspaceFolder ctx)
            else Inr source) = Inr code
        \<and> compileAndRun H mp code (moduleSourceOverrides opts) = Inr (exports, recorded)
      \<longrightarrow> loadTemplateRecipe H W deps mp ctx opts =
            (completeRecipe H W
               (AList.update (path_normalize mp) (recordModuleDependencies recorded)
                  (invalidateModuleTree deps mp)) mp ctx opts exports,
             AList.update (path_normalize mp) (recordModuleDependencies recorded)
               (invalidateModuleTree deps mp)))"
proof (intro conjI impI)
  assume "moduleSource opts = None \<and> \<not> fileExists H mp"
  then show "loadTemplateRecipe H W deps mp ctx opts = (Inl (ModuleNotFound mp), deps)"
    by (simp add: loadTemplateRecipe_def)
next
  assume "\<forall>c \<in> set candidates. map_of dirty (path_normalize c) = None
                              \<and> \<not> fileExists H (path_normalize c)"
  from resolveCompanionModule_none[OF this]
  show "renderRecipe H W deps candidates dirty ctx = (Inr createDefaultRecipe, deps)"
    by (simp add: renderRecipe_def)
next
  show "r_data createDefaultRecipe = EmptyObj" by (simp add: createDefaultRecipe_def)
next
  show "r_helpers createDefaultRecipe = EmptyObj" by (simp add: createDefaultRecipe_def)
next
  show "r_partials createDefaultRecipe = []" by (simp add: createDefaultRecipe_def)
next
  show "r_watchFiles createDefaultRecipe = []" by (simp add: createDefaultRecipe_def)
next
  assume a: "moduleSource opts = Some source
        \<and> (if toLowerCase (path_extname mp) = ''.ts''
            then transpile H source mp
                   (case optWorkspaceFolder opts of Some w \<Rightarrow> Some w
                    | None \<Rightarrow> ctx_workspaceFolder ctx)
            else Inr source) = Inr code
        \<and> compileAndRun H mp code (moduleSourceOverrides opts) = Inr (exports, recorded)"
  then have "loadModuleExports H deps mp (Some source)
        (case optWorkspaceFolder opts of Some w \<Rightarrow> Some w | None \<Rightarrow> ctx_workspaceFolder ctx)
        (moduleSourceOverrides opts)
      = (Inr exports, AList.update (path_normalize mp) (recordModuleDependencies recorded)
                        (invalidateModuleTree deps mp))"
    by (auto simp: loadModuleExports_def loadModuleFromSource_def withModuleLoadFrame_def Let_def
        split: if_splits)
  with a show "loadTemplateRecipe H W deps mp ctx opts =
            (completeRecipe H W
               (AList.update (path_normalize mp) (recordModuleDependencies recorded)
                  (invalidateModuleTree deps mp)) mp ctx opts exports,
             AList.update (path_normalize mp) (recordModuleDependencies recorded)
               (invalidateModuleTree deps mp))"
    by (simp add: loadTemplateRecipe_def)
qed

text \<open>
  The claim as stated fails: for a module that is absent and has no override the call
  returns no recipe.
\<close>

theorem missing_module_is_an_error:
  "moduleSource exampleOptions = None \<and> \<not> fileExists exampleHost ''/site/missing.hbs.js''
   \<and> loadTemplateRecipe exampleHost exampleWorld [] ''/site/missing.hbs.js'' exampleContext
         exampleOptions = (Inl (ModuleNotFound ''/site/missing.hbs.js''), [])"
  by code_simp

lemma example_missing:
  "moduleSource exampleOptions = None \<and> \<not> fileExists exampleHost ''/site/missing.hbs.js''"
  "\<forall>c \<in> set [''/site/missing.hbs.js'', ''/site/missing.hbs.ts''].
      map_of [] (path_normalize c) = (None :: string option)
      \<and> \<not> fileExists exampleHost (path_normalize c)"
  by code_simp+

lemma example_override:
  "moduleSource (exampleOptions\<lparr>moduleSource := Some ''module.exports = recipe''\<rparr>)
      = Some ''module.exports = recipe''
   \<and> (if toLowerCase (path_extname ''/site/missing.hbs.ts'') = ''.ts''
       then transpile exampleHost ''module.exports = recipe'' ''/site/missing.hbs.ts''
              (case optWorkspaceFolder (exampleOptions\<lparr>moduleSource := Some ''module.exports = recipe''\<rparr>)
               of Some w \<Rightarrow> Some w | None \<Rightarrow> ctx_workspaceFolder exampleContext)
       else Inr ''module.exports = recipe'') = Inr ''module.exports = recipe''
   \<and> compileAndRun exampleHost ''/site/missing.hbs.ts'' ''module.exports = recipe''
         (moduleSourceOverrides (exampleOptions\<lparr>moduleSource := Some ''module.exports = recipe''\<rparr>))
       = Inr (Obj 10, [''/site/lib/util.ts''])"
  by code_simp

lemma example_override_complete:
  "completeRecipe exampleHost exampleWorld
     (AList.update (path_normalize ''/site/missing.hbs.ts'')
        (recordModuleDependencies [''/site/lib/util.ts'']) (invalidateModuleTree [] ''/site/missing.hbs.ts''))
     ''/site/missing.hbs.ts'' exampleContext
     (exampleOptions\<lparr>moduleSource := Some ''module.exports = recipe''\<rparr>) (Obj 10)
   = Inr exampleRecipe"
  by code_simp

theorem loadTemplateRecipe_module_presence_witness:
  "loadTemplateRecipe exampleHost exampleWorld [] ''/site/missing.hbs.js'' exampleContext
      exampleOptions = (Inl (ModuleNotFound ''/site/missing.hbs.js''), [])
   \<and> renderRecipe exampleHost exampleWorld [] [''/site/missing.hbs.js'', ''/site/missing.hbs.ts'']
        [] exampleContext = (Inr createDefaultRecipe, [])
   \<and> \<not> fileExists exampleHost ''/site/missing.hbs.ts''
   \<and> fst (loadTemplateRecipe exampleHost exampleWorld [] ''/site/missing.hbs.ts'' exampleContext
        (exampleOptions\<lparr>moduleSource := Some ''module.exports = recipe''\<rparr>)) = Inr exampleRecipe"
proof -
  have a: "loadTemplateRecipe exampleHost exampleWorld [] ''/site/missing.hbs.js'' exampleContext
      exampleOptions = (Inl (ModuleNotFound ''/site/missing.hbs.js''), [])"
    using loadTemplateRecipe_module_presence[where H = exampleHost and W = exampleWorld
        and deps = "[]" and ctx = exampleContext and opts = exampleOptions
        and mp = "''/site/missing.hbs.js''", THEN conjunct1] example_missing(1)
    by (rule mp)
  have b: "renderRecipe exampleHost exampleWorld [] [''/site/missing.hbs.js'', ''/site/missing.hbs.ts'']
        [] exampleContext = (Inr createDefaultRecipe, [])"
    using loadTemplateRecipe_module_presence[where H = exampleHost and W = exampleWorld
        and deps = "[]" and ctx = exampleContext
        and candidates = "[''/site/missing.hbs.js'', ''/site/missing.hbs.ts'']" and dirty = "[]",
        THEN conjunct2, THEN conjunct1] example_missing(2)
    by blast
  have c: "\<not> fileExists exampleHost ''/site/missing.hbs.ts''" by code_simp
  have d: "fst (loadTemplateRecipe exampleHost exampleWorld [] ''/site/missing.hbs.ts'' exampleContext
        (exampleOptions\<lparr>moduleSource := Some ''module.exports = recipe''\<rparr>)) = Inr exampleRecipe"
    using loadTemplateRecipe_module_presence[where H = exampleHost and W = exampleWorld
        and deps = "[]" and ctx = exampleContext
        and opts = "exampleOptions\<lparr>moduleSource := Some ''module.exports = recipe''\<rparr>"
        and mp = "''/site/missing.hbs.ts''" and source = "''module.exports = recipe''"
        and code = "''module.exports = recipe''" and exports = "Obj 10"
        and recorded = "[''/site/lib/util.ts'']",
        THEN conjunct2, THEN conjunct2] example_override
    by (simp only: example_override_complete fst_conv)
  from a b c d show ?thesis by (simp only: simp_thms)
qed

subsection \<open>Hooks that add and remove a prefix\<close>

text \<open>
  Claim C8, as amended. Rendering with a preprocess hook that puts a fixed prefix in front
  of the template and a postprocess hook that removes that prefix from the front of the
  output gives the same result as rendering with neither hook, for every template, data,
  helpers and partials for which the engine renders the prefixed template to the prefix
  followed by what it renders the template to, and fails on the one when it fails on the
  other. That the prefix holds no template syntax does not make the engine do so. In any
  case the result with the hooks is what the postprocess hook makes of the engine's
  rendering of the prefixed template, with the helpers, partials and data of the recipe.
\<close>

theorem prefix_round_trip:
  assumes "r_preprocess recipe = Fn p" and "r_postprocess recipe = Fn q"
    and "callProcessor W p templateContent ctx = Inr (prefix @ templateContent)"
    and "\<forall>out. callProcessor W q (prefix @ out) ctx = Inr out"
  shows "renderTemplate engine W templateContent recipe ctx
           = (case engine (if truthy (r_helpers recipe) then objectEntries W (r_helpers recipe)
                           else [])
                     (r_partials recipe) (prefix @ templateContent)
                     (if r_data recipe = Undefined \<or> r_data recipe = Null then EmptyObj
                      else r_data recipe) of
                Inl message \<Rightarrow> Inl (Thrown message)
              | Inr out \<Rightarrow> applyProcessor W (Fn q) out ctx)
     \<and> ((\<forall>registeredHelpers registeredPartials d.
            engine registeredHelpers registeredPartials (prefix @ templateContent) d
            = (case engine registeredHelpers registeredPartials templateContent d of
                 Inl message \<Rightarrow> Inl message
               | Inr out \<Rightarrow> Inr (prefix @ out)))
          \<longrightarrow> renderTemplate engine W templateContent recipe ctx
              = renderTemplate engine W templateContent
                  (recipe\<lparr>r_preprocess := Undefined, r_postprocess := Undefined\<rparr>) ctx)"
proof
  show "renderTemplate engine W templateContent recipe ctx
           = (case engine (if truthy (r_helpers recipe) then objectEntries W (r_helpers recipe)
                           else [])
                     (r_partials recipe) (prefix @ templateContent)
                     (if r_data recipe = Undefined \<or> r_data recipe = Null then EmptyObj
                      else r_data recipe) of
                Inl message \<Rightarrow> Inl (Thrown message)
              | Inr out \<Rightarrow> applyProcessor W (Fn q) out ctx)"
    using assms(1-3)
    by (simp add: renderTemplate_def applyProcessor_def truthy_def Let_def split: sum.splits)
next
  show "(\<forall>registeredHelpers registeredPartials d.
            engine registeredHelpers registeredPartials (prefix @ templateContent) d
            = (case engine registeredHelpers registeredPartials templateContent d of
                 Inl message \<Rightarrow> Inl message
               | Inr out \<Rightarrow> Inr (prefix @ out)))
          \<longrightarrow> renderTemplate engine W templateContent recipe ctx
              = renderTemplate engine W templateContent
                  (recipe\<lparr>r_preprocess := Undefined, r_postprocess := Undefined\<rparr>) ctx"
    using assms
    by (simp add: renderTemplate_def applyProcessor_def truthy_def Let_def split: sum.splits)
qed

lemma fillEngine_prefix:
  "fillEngine hs ps (hookPrefix @ t) d
     = (case fillEngine hs ps t d of Inl message \<Rightarrow> Inl message
        | Inr out \<Rightarrow> Inr (hookPrefix @ out))"
  by (simp add: fillEngine_def hookPrefix_def)

lemma hookWorld_processors:
  "callProcessor hookWorld 3 t c = Inr (hookPrefix @ t)"
  "callProcessor hookWorld 4 (hookPrefix @ out) c = Inr out"
  by (simp_all add: hookWorld_def)

lemma hookRecipe_hooks: "r_preprocess hookRecipe = Fn 3" "r_postprocess hookRecipe = Fn 4"
  by (simp_all add: hookRecipe_def)

lemma handlebarsComments_closed:
  "handlebarsComments hs ps t d = handlebarsComments [] [] t Undefined"
  by (simp add: handlebarsComments_def)

lemma inlineTemplate_rendered:
  "handlebarsComments [] [] inlineTemplate Undefined = Inr ''<h1>Hi</h1>''"
  "handlebarsComments [] [] (hookPrefix @ inlineTemplate) Undefined
     = Inr (hookPrefix @ ''<h1>Hi</h1>'')"
  by code_simp+

lemma inlineTemplate_prefix:
  "handlebarsComments hs ps (hookPrefix @ inlineTemplate) d
     = (case handlebarsComments hs ps inlineTemplate d of Inl message \<Rightarrow> Inl message
        | Inr out \<Rightarrow> Inr (hookPrefix @ out))"
  by (simp add: handlebarsComments_closed[of hs ps] inlineTemplate_rendered)

theorem prefix_round_trip_witness:
  "renderTemplate fillEngine hookWorld ''<h1>@</h1>'' hookRecipe exampleContext
     = Inr ''<h1>Welcome</h1>''
   \<and> renderTemplate handlebarsComments hookWorld inlineTemplate hookRecipe exampleContext
     = Inr ''<h1>Hi</h1>''"
proof -
  have plain: "renderTemplate fillEngine hookWorld ''<h1>@</h1>''
          (hookRecipe\<lparr>r_preprocess := Undefined, r_postprocess := Undefined\<rparr>) exampleContext
        = Inr ''<h1>Welcome</h1>''"
    by code_simp
  have a: "renderTemplate fillEngine hookWorld ''<h1>@</h1>'' hookRecipe exampleContext
     = Inr ''<h1>Welcome</h1>''"
    using prefix_round_trip[where recipe = hookRecipe and p = 3 and q = 4 and W = hookWorld
        and prefix = hookPrefix and engine = fillEngine and templateContent = "''<h1>@</h1>''"
        and ctx = exampleContext, THEN conjunct2] plain hookRecipe_hooks
    by (simp add: hookWorld_processors fillEngine_prefix)
  have plain2: "renderTemplate handlebarsComments hookWorld inlineTemplate
          (hookRecipe\<lparr>r_preprocess := Undefined, r_postprocess := Undefined\<rparr>) exampleContext
        = Inr ''<h1>Hi</h1>''"
    by code_simp
  have b: "renderTemplate handlebarsComments hookWorld inlineTemplate hookRecipe exampleContext
     = Inr ''<h1>Hi</h1>''"
    using prefix_round_trip[where recipe = hookRecipe and p = 3 and q = 4 and W = hookWorld
        and prefix = hookPrefix and engine = handlebarsComments
        and templateContent = inlineTemplate and ctx = exampleContext, THEN conjunct2]
      plain2 hookRecipe_hooks
    by (simp add: hookWorld_processors inlineTemplate_prefix)
  from a b show ?thesis by (simp only: simp_thms)
qed

text \<open>
  The claim as stated fails. The prefix \<^verbatim>\<open><!-- preview -->\<close> holds no template syntax:
  the engine renders it to itself. In \<open>headedTemplate\<close> the comment on the first line
  stands alone, so without the hooks the line break after it is removed. With the prefix
  in front of it the comment no longer stands alone on its line and the line break stays:
  once the prefix is removed, the output begins with a line break that the rendering
  without hooks does not have.
\<close>

theorem prefix_breaks_standalone_line:
  "handlebarsComments [] [] hookPrefix (r_data hookRecipe) = Inr hookPrefix
   \<and> renderTemplate handlebarsComments hookWorld headedTemplate
        (hookRecipe\<lparr>r_preprocess := Undefined, r_postprocess := Undefined\<rparr>) exampleContext
       = Inr ''<h1>Hi</h1>''
   \<and> renderTemplate handlebarsComments hookWorld headedTemplate hookRecipe exampleContext
       = Inr ''\<newline><h1>Hi</h1>''"
  by code_simp

subsection \<open>The compiler context and \<^verbatim>\<open>rootDir\<close>\<close>

lemma getCompilerContext_fresh:
  assumes "findTsConfigPath T st filePath workspace = (Some configPath, st1)"
    and "compilerContextCache st1 = []"
    and "parseConfig T (path_normalize configPath) = Inr parsed"
    and "co_rootDir parsed = Some rd" and "rd \<noteq> []"
  shows "\<exists>c st2. getCompilerContext T st filePath workspace = (Inr c, st2)
     \<and> options c = parsed\<lparr>co_module := Some CommonJS,
          co_rootDir := (if isWithinDirectory (ts_cwd T) filePath
                              (path_resolve (ts_cwd T)
                                 [path_dirname (path_normalize configPath), rd])
                         then Some rd else None)\<rparr>"
  using assms by (simp add: getCompilerContext_def Let_def)

text \<open>
  Claim C7. When the project configuration declares a \<^verbatim>\<open>rootDir\<close>, a file outside it
  is to be compiled with the parsed options without \<^verbatim>\<open>rootDir\<close> and a file inside it
  with \<^verbatim>\<open>rootDir\<close> kept. The code does not keep it for a file inside once a file
  outside was compiled: with empty caches \<^verbatim>\<open>/proj/src/helper.ts\<close>, which lies within
  the \<^verbatim>\<open>rootDir\<close> \<^verbatim>\<open>/proj/src\<close>, gets a context with \<^verbatim>\<open>rootDir\<close>; after
  \<^verbatim>\<open>/proj/templates/page.hbs.ts\<close> was compiled, the context cached without
  \<^verbatim>\<open>rootDir\<close> is returned for it.
\<close>

theorem rootless_context_reused_inside_rootDir:
  "isWithinDirectory (ts_cwd projectHost) ''/proj/src/helper.ts'' ''/proj/src''
   \<and> map_sum id (\<lambda>c. co_rootDir (options c))
         (fst (getCompilerContext projectHost emptyCaches ''/proj/src/helper.ts'' None))
       = Inr (Some ''/proj/src'')
   \<and> map_sum id (\<lambda>c. co_rootDir (options c))
         (fst (getCompilerContext projectHost emptyCaches ''/proj/templates/page.hbs.ts'' None))
       = Inr None
   \<and> map_sum id (\<lambda>c. co_rootDir (options c))
         (fst (getCompilerContext projectHost
                 (snd (getCompilerContext projectHost emptyCaches
                         ''/proj/templates/page.hbs.ts'' None))
                 ''/proj/src/helper.ts'' None))
       = Inr None"
  by code_simp

end
